theory Spec2Isabelle
  imports Complex_Main "HOL-Library.Log_Nat" "HOL-Library.Multiset"
begin

section \<open>JavaScript values and time\<close>

text \<open>
  A JavaScript number is an IEEE 754 binary64 value. Page counts, points and epoch
  milliseconds are integers far below \<open>2 ^ 53\<close>, which binary64 holds exactly, and
  are modelled as \<open>int\<close>. A number that comes out of an addition, a division or a
  multiplication is a \<open>real\<close> that went through \<open>toDouble\<close>, the rounding of
  binary64: to 53 significant bits, to the nearest, a tie to the even significand.

  \<open>pow2 e\<close> is \<open>2\<close> to the power \<open>e\<close>, and \<open>binade x\<close>, for a positive \<open>x\<close>, is the
  exponent \<open>b\<close> with \<open>pow2 b \<le> x < pow2 (b + 1)\<close>. The exponent range of binary64
  (overflow to infinity above about \<open>1.8e308\<close>, gradual underflow below about
  \<open>2.2e-308\<close>) is not modelled; no quotient or product of this program over integers
  below \<open>2 ^ 53\<close> leaves it.
\<close>

definition roundTiesToEven :: "real \<Rightarrow> int" where
  "roundTiesToEven x =
     (let f = \<lfloor>x\<rfloor>; d = x - real_of_int f
      in if d < 1 / 2 then f else if 1 / 2 < d then f + 1 else if even f then f else f + 1)"

definition pow2 :: "int \<Rightarrow> real" where
  "pow2 e = (if 0 \<le> e then 2 ^ nat e else 1 / 2 ^ nat (- e))"

definition binade :: "real \<Rightarrow> int" where
  "binade x = (if 1 \<le> x then bitlen \<lfloor>x\<rfloor> - 1 else - bitlen (\<lceil>1 / x\<rceil> - 1))"

definition toDouble :: "real \<Rightarrow> real" where
  "toDouble x =
     (if x = 0 then 0
      else let e = binade \<bar>x\<bar> - 52
           in real_of_int (roundTiesToEven (x / pow2 e)) * pow2 e)"

text \<open>The operators \<open>+\<close>, \<open>*\<close> and \<open>/\<close> on numbers.\<close>

definition fadd :: "real \<Rightarrow> real \<Rightarrow> real" where
  "fadd a b = toDouble (a + b)"

definition fmul :: "real \<Rightarrow> real \<Rightarrow> real" where
  "fmul a b = toDouble (a * b)"

definition fdiv :: "real \<Rightarrow> real \<Rightarrow> real" where
  "fdiv a b = toDouble (a / b)"

text \<open>\<open>Math.round\<close> rounds to the nearest integer, a tie towards plus infinity.\<close>

definition Math_round :: "real \<Rightarrow> int" where
  "Math_round x = \<lfloor>x + 1 / 2\<rfloor>"

text \<open>
  A \<open>Date\<close> is its \<open>getTime()\<close>: milliseconds since the epoch. The server's zone is
  taken as UTC, so \<open>setHours(0, 0, 0, 0)\<close> rounds down to a multiple of one day and
  \<open>setDate(getDate() - 1)\<close> subtracts one day.
\<close>

type_synonym Date = int

definition msPerDay :: int where
  "msPerDay = 1000 * 60 * 60 * 24"

definition setHours0 :: "Date \<Rightarrow> Date" where
  "setHours0 t = t - t mod msPerDay"

definition setDatePrev :: "Date \<Rightarrow> Date" where
  "setDatePrev t = t - msPerDay"

text \<open>
  A string that the code only compares, tests for emptiness or stores is a \<open>string\<close>.
  A string that the code reads character by character (the feedback text, which it
  trims) is the list of its UTF-16 code units, each a number below 65536; \<open>utf16\<close>
  gives the code units of a string of ASCII characters.
\<close>

type_synonym jsString = "nat list"

definition utf16 :: "string \<Rightarrow> jsString" where
  "utf16 s = map of_char s"

text \<open>
  \<open>String.prototype.trim\<close> removes white space and line terminators from both ends:
  tab, line feed, vertical tab, form feed, carriage return, space, no-break space
  (U+00A0), U+1680, U+2000 to U+200A, the line and paragraph separators (U+2028,
  U+2029), U+202F, U+205F, U+3000 and the byte order mark (U+FEFF).
\<close>

definition isWhiteSpace :: "nat \<Rightarrow> bool" where
  "isWhiteSpace c =
     (c = 0x09 \<or> c = 0x0A \<or> c = 0x0B \<or> c = 0x0C \<or> c = 0x0D \<or> c = 0x20 \<or> c = 0xA0 \<or>
      c = 0x1680 \<or> (0x2000 \<le> c \<and> c \<le> 0x200A) \<or> c = 0x2028 \<or> c = 0x2029 \<or>
      c = 0x202F \<or> c = 0x205F \<or> c = 0x3000 \<or> c = 0xFEFF)"

definition trim :: "jsString \<Rightarrow> jsString" where
  "trim s = rev (dropWhile isWhiteSpace (rev (dropWhile isWhiteSpace s)))"

text \<open>JavaScript truthiness of a string or a number that may be absent.\<close>

definition truthyStr :: "string option \<Rightarrow> bool" where
  "truthyStr v = (case v of None \<Rightarrow> False | Some s \<Rightarrow> s \<noteq> [])"

definition truthyNum :: "int option \<Rightarrow> bool" where
  "truthyNum v = (case v of None \<Rightarrow> False | Some n \<Rightarrow> n \<noteq> 0)"

text \<open>\<open>a || d\<close> on a string that may be absent, for a default \<open>d\<close>.\<close>

definition orDefault :: "string option \<Rightarrow> string \<Rightarrow> string" where
  "orDefault v d = (case v of None \<Rightarrow> d | Some s \<Rightarrow> if s = [] then d else s)"

text \<open>\<open>a || 0\<close> on a number that may be absent.\<close>

definition orZero :: "int option \<Rightarrow> int" where
  "orZero v = (case v of None \<Rightarrow> 0 | Some n \<Rightarrow> n)"

section \<open>Data model\<close>

datatype Role = STUDENT | TEACHER | ADMIN

datatype ReadingStatus = NOT_STARTED | READING | PAUSED | COMPLETED

record User =
  u_id :: string
  u_name :: "string option"
  u_email :: string
  u_role :: Role
  u_avatar :: "string option"
  u_level :: int
  u_points :: int

record Book =
  b_id :: string
  b_title :: string
  b_pages :: "int option"

record ReadingProgress =
  p_userId :: string
  p_bookId :: string
  p_status :: ReadingStatus
  p_currentPage :: int
  p_totalPages :: int
  p_progressPercentage :: real
  p_startedAt :: "Date option"
  p_completedAt :: "Date option"
  p_updatedAt :: Date

record Summary =
  s_id :: string
  s_title :: string
  s_content :: string
  s_authorId :: string
  s_bookId :: string
  s_isPublic :: bool
  s_rating :: "real option"
  s_createdAt :: Date

record Comment =
  c_content :: jsString
  c_authorId :: string
  c_summaryId :: "string option"
  c_createdAt :: Date

text \<open>The relational store: one list of rows per table, in table order.\<close>

record DB =
  users :: "User list"
  books :: "Book list"
  readingProgress :: "ReadingProgress list"
  summaries :: "Summary list"
  comments :: "Comment list"

definition findUser :: "DB \<Rightarrow> string \<Rightarrow> User option" where
  "findUser db uid = find (\<lambda>u. u_id u = uid) (users db)"

definition pointsOf :: "DB \<Rightarrow> string \<Rightarrow> int option" where
  "pointsOf db uid = map_option u_points (findUser db uid)"

definition findBook :: "DB \<Rightarrow> string \<Rightarrow> Book option" where
  "findBook db bid = find (\<lambda>b. b_id b = bid) (books db)"

definition findProgress :: "DB \<Rightarrow> string \<Rightarrow> string \<Rightarrow> ReadingProgress option" where
  "findProgress db uid bid =
     find (\<lambda>p. p_userId p = uid \<and> p_bookId p = bid) (readingProgress db)"

definition findSummary :: "DB \<Rightarrow> string \<Rightarrow> Summary option" where
  "findSummary db sid = find (\<lambda>s. s_id s = sid) (summaries db)"

text \<open>
  \<open>prisma.user.update({ where: { id }, data: { points: { increment: n } } })\<close>:
  the update fails (\<open>None\<close>) when no user has the id.
\<close>

definition incrementPoints :: "string \<Rightarrow> int \<Rightarrow> DB \<Rightarrow> DB option" where
  "incrementPoints uid n db =
     (case findUser db uid of
        None \<Rightarrow> None
      | Some _ \<Rightarrow>
          Some (db\<lparr>users :=
            map (\<lambda>u. if u_id u = uid then u\<lparr>u_points := u_points u + n\<rparr> else u) (users db)\<rparr>))"

text \<open>The response of a handler: a JSON body with its status, or an error message with its status.\<close>

datatype 'a Response = Reply (httpStatus: nat) 'a | Failure (httpStatus: nat) string

section \<open>Streak calculator (dashboard statistics)\<close>

text \<open>
  The loop of \<open>calculateReadingStreak\<close> over \<open>uniqueDates\<close>, with the running
  \<open>currentDate\<close> and \<open>streak\<close>. Both tests of the source compare with the same
  \<open>currentDate.getTime()\<close>.
\<close>

fun streakLoop :: "Date list \<Rightarrow> Date \<Rightarrow> nat \<Rightarrow> nat" where
  "streakLoop [] currentDate streak = streak"
| "streakLoop (dateTime # rest) currentDate streak =
     (if dateTime = currentDate then streakLoop rest (setDatePrev currentDate) (streak + 1)
      else if dateTime = currentDate then streakLoop rest (setDatePrev currentDate) (streak + 1)
      else streak)"

text \<open>
  \<open>activities\<close> are the \<open>updatedAt\<close> values of the user's progress rows, as the query
  returns them; \<open>now\<close> is \<open>new Date()\<close>.
\<close>

definition calculateReadingStreak :: "Date list \<Rightarrow> Date \<Rightarrow> nat" where
  "calculateReadingStreak activities now =
     (if length activities = 0 then 0
      else
        let currentDate = setHours0 now;
            activityDates = map setHours0 activities;
            uniqueDates = rev (sort (remdups activityDates))
        in streakLoop uniqueDates currentDate 0)"

section \<open>Monthly aggregator (dashboard statistics)\<close>

text \<open>
  \<open>processMonthlyStats\<close> reads a \<open>Date\<close> through its local calendar fields and
  compares \<open>Date\<close>s. In a zone with a fixed offset the order of two instants is the
  lexicographic order of (year, month, day, millisecond of the day), so here a
  \<open>Date\<close> is that tuple; months count from 0 as \<open>getMonth()\<close> does.
\<close>

record LocalDate =
  ld_year :: int
  ld_month :: int
  ld_day :: int
  ld_ms :: int

definition date_le :: "LocalDate \<Rightarrow> LocalDate \<Rightarrow> bool" where
  "date_le a b =
     (ld_year a < ld_year b \<or>
      (ld_year a = ld_year b \<and>
        (ld_month a < ld_month b \<or>
         (ld_month a = ld_month b \<and>
           (ld_day a < ld_day b \<or> (ld_day a = ld_day b \<and> ld_ms a \<le> ld_ms b))))))"

definition isLeapYear :: "int \<Rightarrow> bool" where
  "isLeapYear y = ((y mod 4 = 0 \<and> y mod 100 \<noteq> 0) \<or> y mod 400 = 0)"

definition daysInMonth :: "int \<Rightarrow> int \<Rightarrow> int" where
  "daysInMonth y m =
     (if m = 1 then (if isLeapYear y then 29 else 28)
      else if m = 3 \<or> m = 5 \<or> m = 8 \<or> m = 10 then 30 else 31)"

text \<open>
  \<open>new Date(year, monthIndex, day)\<close> at midnight, for the two days the source passes:
  day 1, and day 0, which is the last day of the month before. A month index outside
  0..11 carries into the year.
\<close>

definition newDate :: "int \<Rightarrow> int \<Rightarrow> int \<Rightarrow> LocalDate" where
  "newDate y m d =
     (if d = 0 then
        (let y' = y + (m - 1) div 12; m' = (m - 1) mod 12
         in \<lparr>ld_year = y', ld_month = m', ld_day = daysInMonth y' m', ld_ms = 0\<rparr>)
      else \<lparr>ld_year = y + m div 12, ld_month = m mod 12, ld_day = d, ld_ms = 0\<rparr>)"

record MonthBucket =
  mb_year :: int
  mb_month :: int
  mb_completed :: nat
  mb_started :: nat
  mb_total :: nat

text \<open>
  One round of the loop, for \<open>i\<close>. The bucket keeps the month's year and index in
  place of the short month name.
\<close>

definition monthBucket :: "(LocalDate \<times> ReadingStatus) list \<Rightarrow> LocalDate \<Rightarrow> int \<Rightarrow> MonthBucket" where
  "monthBucket stats now i =
     (let date = newDate (ld_year now) (ld_month now - i) 1;
          monthStart = newDate (ld_year date) (ld_month date) 1;
          monthEnd = newDate (ld_year date) (ld_month date + 1) 0;
          monthStats = filter (\<lambda>stat. date_le monthStart (fst stat) \<and> date_le (fst stat) monthEnd) stats;
          completed = length (filter (\<lambda>stat. snd stat = COMPLETED) monthStats);
          started = length (filter (\<lambda>stat. snd stat = READING) monthStats)
      in \<lparr>mb_year = ld_year date, mb_month = ld_month date,
          mb_completed = completed, mb_started = started, mb_total = completed + started\<rparr>)"

definition processMonthlyStats :: "(LocalDate \<times> ReadingStatus) list \<Rightarrow> LocalDate \<Rightarrow> MonthBucket list" where
  "processMonthlyStats stats now = map (monthBucket stats now) [5, 4, 3, 2, 1, 0]"

section \<open>Leaderboard ranker\<close>

record EntryUser =
  eu_id :: string
  eu_name :: string
  eu_email :: string
  eu_role :: Role
  eu_avatar :: "string option"
  eu_level :: int

record EntryStats =
  st_points :: int
  st_booksCompleted :: nat
  st_booksReading :: nat
  st_totalBooksStarted :: nat
  st_totalPagesRead :: int
  st_summariesWritten :: nat
  st_averageSummaryRating :: real
  st_readingStreak :: nat
  st_completionRate :: int

record LeaderboardEntry =
  e_rank :: nat
  e_user :: EntryUser
  e_stats :: EntryStats

text \<open>
  One row of the users query: the user, the user's progress rows and summaries that pass
  the date filter, each progress row with the \<open>pages\<close> of its book.
\<close>

record UserRow =
  ur_user :: User
  ur_readingProgress :: "(ReadingProgress \<times> int option) list"
  ur_summaries :: "Summary list"

text \<open>The lower bound \<open>gte\<close> of the date filter; \<open>None\<close> is the empty filter.\<close>

definition dateFilter :: "string \<Rightarrow> Date \<Rightarrow> Date option" where
  "dateFilter period now =
     (if period = ''week'' then Some (now - 7 * 24 * 60 * 60 * 1000)
      else if period = ''month'' then Some (now - 30 * 24 * 60 * 60 * 1000)
      else None)"

definition passesDateFilter :: "Date option \<Rightarrow> Date \<Rightarrow> bool" where
  "passesDateFilter f t = (case f of None \<Rightarrow> True | Some gte \<Rightarrow> gte \<le> t)"

definition userRoleFilter :: "string \<Rightarrow> User \<Rightarrow> bool" where
  "userRoleFilter type u =
     (if type = ''students'' then u_role u = STUDENT
      else if type = ''teachers'' then u_role u = TEACHER \<or> u_role u = ADMIN
      else True)"

definition bookPages :: "DB \<Rightarrow> string \<Rightarrow> int option" where
  "bookPages db bid = (case findBook db bid of None \<Rightarrow> None | Some b \<Rightarrow> b_pages b)"

definition userProgress :: "DB \<Rightarrow> Date option \<Rightarrow> string \<Rightarrow> ReadingProgress list" where
  "userProgress db f uid =
     filter (\<lambda>p. p_userId p = uid \<and> passesDateFilter f (p_updatedAt p)) (readingProgress db)"

definition userSummaries :: "DB \<Rightarrow> Date option \<Rightarrow> string \<Rightarrow> Summary list" where
  "userSummaries db f uid =
     filter (\<lambda>s. s_authorId s = uid \<and> passesDateFilter f (s_createdAt s)) (summaries db)"

text \<open>
  \<open>orderBy: { points: 'desc' }\<close> is the work of the store, which fixes no order among
  users with equal points. The order that the store returns is a parameter \<open>orderBy\<close>
  of the query; \<open>ordersByPointsDesc\<close> says all that is known of it: the result holds
  the same rows, and the points never increase along it.
\<close>

definition ordersByPointsDesc :: "(User list \<Rightarrow> User list) \<Rightarrow> bool" where
  "ordersByPointsDesc orderBy =
     (\<forall>us. mset (orderBy us) = mset us \<and> sorted_wrt (\<ge>) (map u_points (orderBy us)))"

text \<open>
  One such order, for the concrete instances: users with equal points in table order.
\<close>

definition stableByPointsDesc :: "User list \<Rightarrow> User list" where
  "stableByPointsDesc us = sort_key (\<lambda>u. - u_points u) us"

text \<open>
  \<open>take: n\<close> of the store: the first \<open>n\<close> rows of the ordered result, and for a
  negative \<open>n\<close> the last \<open>- n\<close> rows, in the same order.
\<close>

definition takeRows :: "int \<Rightarrow> 'a list \<Rightarrow> 'a list" where
  "takeRows n xs = (if 0 \<le> n then take (nat n) xs else drop (length xs - nat (- n)) xs)"

text \<open>
  \<open>prisma.user.findMany\<close>: the users that pass the role filter, in the order of the
  store, cut by \<open>take\<close>, each with the nested rows that pass the date filter.
\<close>

definition findManyUsers ::
  "(User list \<Rightarrow> User list) \<Rightarrow> string \<Rightarrow> Date option \<Rightarrow> int \<Rightarrow> DB \<Rightarrow> UserRow list" where
  "findManyUsers orderBy type f limit db =
     map (\<lambda>u. \<lparr>ur_user = u,
               ur_readingProgress =
                 map (\<lambda>p. (p, bookPages db (p_bookId p))) (userProgress db f (u_id u)),
               ur_summaries = userSummaries db f (u_id u)\<rparr>)
       (takeRows limit (orderBy (filter (userRoleFilter type) (users db))))"

text \<open>\<open>sum + summary.rating\<close>: a \<open>null\<close> rating adds 0.\<close>

definition ratingNumber :: "real option \<Rightarrow> real" where
  "ratingNumber r = (case r of None \<Rightarrow> 0 | Some x \<Rightarrow> x)"

definition averageSummaryRating :: "Summary list \<Rightarrow> real" where
  "averageSummaryRating ss =
     (if length ss > 0
      then fdiv (foldl (\<lambda>sum summary. fadd sum (ratingNumber (s_rating summary))) 0 ss)
             (real (length ss))
      else 0)"

text \<open>
  The streak of the leaderboard: the rows sorted by \<open>updatedAt\<close>, latest first, and the
  whole days between the first of them and \<open>today\<close>.
\<close>

definition readingStreak :: "(ReadingProgress \<times> int option) list \<Rightarrow> Date \<Rightarrow> nat" where
  "readingStreak rows today =
     (let sortedProgress = sort_key (\<lambda>r. - p_updatedAt (fst r)) rows
      in case sortedProgress of
           [] \<Rightarrow> 0
         | first # _ \<Rightarrow>
             (let lastActivity = p_updatedAt (fst first);
                  daysDiff = (today - lastActivity) div (1000 * 60 * 60 * 24)
              in if daysDiff \<le> 1 then min (length sortedProgress) 30 else 0))"

definition leaderboardEntry :: "Date \<Rightarrow> nat \<times> UserRow \<Rightarrow> LeaderboardEntry" where
  "leaderboardEntry now ir =
     (let index = fst ir; row = snd ir; user = ur_user row;
          completedBooks = length (filter (\<lambda>r. p_status (fst r) = COMPLETED) (ur_readingProgress row));
          readingBooks = length (filter (\<lambda>r. p_status (fst r) = READING) (ur_readingProgress row));
          totalPagesRead =
            foldl (\<lambda>total r. total + orZero (snd r)) 0
              (filter (\<lambda>r. p_status (fst r) = COMPLETED) (ur_readingProgress row))
      in \<lparr>e_rank = index + 1,
          e_user = \<lparr>eu_id = u_id user,
                    eu_name = orDefault (u_name user) ''Unknown User'',
                    eu_email = u_email user, eu_role = u_role user,
                    eu_avatar = u_avatar user, eu_level = u_level user\<rparr>,
          e_stats = \<lparr>st_points = u_points user,
                     st_booksCompleted = completedBooks,
                     st_booksReading = readingBooks,
                     st_totalBooksStarted = length (ur_readingProgress row),
                     st_totalPagesRead = totalPagesRead,
                     st_summariesWritten = length (ur_summaries row),
                     st_averageSummaryRating =
                       fdiv (real_of_int (Math_round (fmul (averageSummaryRating (ur_summaries row)) 10))) 10,
                     st_readingStreak = readingStreak (ur_readingProgress row) now,
                     st_completionRate =
                       (if length (ur_readingProgress row) > 0
                        then Math_round
                               (fmul (fdiv (real completedBooks) (real (length (ur_readingProgress row)))) 100)
                        else 0)\<rparr>\<rparr>)"

text \<open>
  The response of \<open>GET\<close>, with the \<open>leaderboard\<close> array as its body; the \<open>metadata\<close>
  counts of the response are left out. \<open>limit\<close> is what \<open>parseInt\<close> made of the
  limit parameter (of 10 when there is none), which the handler does not check: any
  integer, or \<open>None\<close> for \<open>NaN\<close>, which the store refuses, so that the \<open>catch\<close> of
  the handler answers 500.
\<close>

definition GET_leaderboard ::
  "(User list \<Rightarrow> User list) \<Rightarrow> string option \<Rightarrow> string option \<Rightarrow> int option \<Rightarrow> Date \<Rightarrow> DB \<Rightarrow>
   LeaderboardEntry list Response" where
  "GET_leaderboard orderBy typeParam periodParam limit now db =
     (case limit of
        None \<Rightarrow> Failure 500 ''Failed to fetch leaderboard''
      | Some n \<Rightarrow>
          (let type = orDefault typeParam ''students'';
               period = orDefault periodParam ''all'';
               rows = findManyUsers orderBy type (dateFilter period now) n db
           in Reply 200 (map (leaderboardEntry now) (enumerate 0 rows))))"

section \<open>Request handlers\<close>

text \<open>
  A handler takes the session, the parsed request, the store and the clock, and returns
  the response with the store as its writes left it. A write that the handler made
  before a later call failed stays in the store: no transaction spans the calls.
  A \<open>create\<close> or \<open>upsert\<close> is taken to succeed; an \<open>update\<close> of a row that does not
  exist fails, and the \<open>catch\<close> of the handler answers 500.
\<close>

record Session =
  sess_id :: string
  sess_name :: string
  sess_role :: Role

subsection \<open>Progress update handler\<close>

record ProgressBody =
  pb_bookId :: "string option"
  pb_status :: "ReadingStatus option"
  pb_currentPage :: "int option"
  pb_totalPages :: "int option"

text \<open>\<open>totalPages || book.pages || 0\<close>\<close>

definition effectivePages :: "int option \<Rightarrow> int option \<Rightarrow> int" where
  "effectivePages totalPages bookPgs =
     (if truthyNum totalPages then orZero totalPages
      else if truthyNum bookPgs then orZero bookPgs
      else 0)"

text \<open>\<open>pages > 0 ? Math.min((currentPage || 0) / pages * 100, 100) : 0\<close>\<close>

definition progressPercentage :: "int option \<Rightarrow> int \<Rightarrow> real" where
  "progressPercentage currentPage pages =
     (if pages > 0
      then min (fmul (fdiv (real_of_int (orZero currentPage)) (real_of_int pages)) 100) 100
      else 0)"

definition startedAtOf :: "ReadingStatus option \<Rightarrow> Date \<Rightarrow> Date option" where
  "startedAtOf status now =
     (if status = Some READING \<or> status = Some PAUSED then Some now
      else if status = Some COMPLETED then Some now
      else None)"

definition completedAtOf :: "ReadingStatus option \<Rightarrow> Date \<Rightarrow> Date option" where
  "completedAtOf status now =
     (if status = Some READING \<or> status = Some PAUSED then None
      else if status = Some COMPLETED then Some now
      else None)"

text \<open>
  \<open>prisma.readingProgress.upsert\<close> on the key (userId, bookId). In the update an
  absent \<open>status\<close>, \<open>startedAt\<close> or \<open>completedAt\<close> leaves the field as it is; the
  store stamps \<open>updatedAt\<close> on every write.
\<close>

definition updateProgress ::
  "ReadingStatus option \<Rightarrow> int \<Rightarrow> int \<Rightarrow> real \<Rightarrow> Date option \<Rightarrow> Date option \<Rightarrow> Date \<Rightarrow>
   ReadingProgress \<Rightarrow> ReadingProgress" where
  "updateProgress status currentPage pages pct startedAt completedAt now p =
     p\<lparr>p_status := (case status of None \<Rightarrow> p_status p | Some s \<Rightarrow> s),
       p_currentPage := currentPage,
       p_totalPages := pages,
       p_progressPercentage := pct,
       p_startedAt := (case startedAt of None \<Rightarrow> p_startedAt p | Some t \<Rightarrow> Some t),
       p_completedAt := (case completedAt of None \<Rightarrow> p_completedAt p | Some t \<Rightarrow> Some t),
       p_updatedAt := now\<rparr>"

definition createProgress ::
  "string \<Rightarrow> string \<Rightarrow> ReadingStatus option \<Rightarrow> int \<Rightarrow> int \<Rightarrow> real \<Rightarrow> Date option \<Rightarrow> Date option \<Rightarrow>
   Date \<Rightarrow> ReadingProgress" where
  "createProgress uid bid status currentPage pages pct startedAt completedAt now =
     \<lparr>p_userId = uid, p_bookId = bid,
      p_status = (case status of None \<Rightarrow> NOT_STARTED | Some s \<Rightarrow> s),
      p_currentPage = currentPage,
      p_totalPages = pages,
      p_progressPercentage = pct,
      p_startedAt = startedAt,
      p_completedAt = completedAt,
      p_updatedAt = now\<rparr>"

definition upsertProgress ::
  "string \<Rightarrow> string \<Rightarrow> ReadingStatus option \<Rightarrow> int \<Rightarrow> int \<Rightarrow> real \<Rightarrow> Date option \<Rightarrow> Date option \<Rightarrow>
   Date \<Rightarrow> DB \<Rightarrow> ReadingProgress \<times> DB" where
  "upsertProgress uid bid status currentPage pages pct startedAt completedAt now db =
     (case findProgress db uid bid of
        Some old \<Rightarrow>
          (updateProgress status currentPage pages pct startedAt completedAt now old,
           db\<lparr>readingProgress :=
             map (\<lambda>p. if p_userId p = uid \<and> p_bookId p = bid
                       then updateProgress status currentPage pages pct startedAt completedAt now p
                       else p)
               (readingProgress db)\<rparr>)
      | None \<Rightarrow>
          (createProgress uid bid status currentPage pages pct startedAt completedAt now,
           db\<lparr>readingProgress :=
             readingProgress db @
               [createProgress uid bid status currentPage pages pct startedAt completedAt now]\<rparr>))"

definition POST_progress ::
  "Session option \<Rightarrow> ProgressBody \<Rightarrow> Date \<Rightarrow> DB \<Rightarrow> ReadingProgress Response \<times> DB" where
  "POST_progress session body now db =
     (case session of
        None \<Rightarrow> (Failure 401 ''Authentication required'', db)
      | Some sess \<Rightarrow>
          if sess_id sess = [] then (Failure 401 ''Authentication required'', db)
          else if \<not> truthyStr (pb_bookId body) then (Failure 400 ''Book ID is required'', db)
          else
            (case findBook db (the (pb_bookId body)) of
               None \<Rightarrow> (Failure 404 ''Book not found'', db)
             | Some book \<Rightarrow>
                 (let bookId = the (pb_bookId body);
                      status = pb_status body;
                      pages = effectivePages (pb_totalPages body) (b_pages book);
                      pct = progressPercentage (pb_currentPage body) pages;
                      startedAt = startedAtOf status now;
                      completedAt = completedAtOf status now;
                      written = upsertProgress (sess_id sess) bookId status
                                  (orZero (pb_currentPage body)) pages pct startedAt completedAt now db;
                      db1 = snd written
                  in if status = Some COMPLETED then
                       (case incrementPoints (sess_id sess) 100 db1 of
                          None \<Rightarrow> (Failure 500 ''Failed to update reading progress'', db1)
                        | Some db2 \<Rightarrow> (Reply 200 (fst written), db2))
                     else if status = Some READING \<and> pct \<ge> 50 then
                       (case incrementPoints (sess_id sess) 25 db1 of
                          None \<Rightarrow> (Failure 500 ''Failed to update reading progress'', db1)
                        | Some db2 \<Rightarrow> (Reply 200 (fst written), db2))
                     else (Reply 200 (fst written), db1))))"

subsection \<open>Summary rating handler\<close>

text \<open>A field of a parsed JSON body whose type the handler tests.\<close>

datatype JsonValue = JUndefined | JNull | JBool bool | JNumber real | JString string

text \<open>
  \<open>ratingIsInt\<close> says whether the \<open>rating\<close> column of the schema holds integers only;
  the store then refuses to write any other number.
\<close>

definition PATCH_summary ::
  "bool \<Rightarrow> Session option \<Rightarrow> string \<Rightarrow> JsonValue \<Rightarrow> jsString option \<Rightarrow> Date \<Rightarrow> DB \<Rightarrow>
   Summary Response \<times> DB" where
  "PATCH_summary ratingIsInt session sid rating feedback now db =
     (case session of
        None \<Rightarrow> (Failure 401 ''Authentication required'', db)
      | Some sess \<Rightarrow>
          if sess_id sess = [] then (Failure 401 ''Authentication required'', db)
          else if sess_role sess \<noteq> TEACHER \<and> sess_role sess \<noteq> ADMIN
            then (Failure 403 ''Insufficient permissions'', db)
          else
            (case rating of
               JNumber r \<Rightarrow>
                 if r < 1 \<or> r > 5 then (Failure 400 ''Rating must be a number between 1 and 5'', db)
                 else
                   (case findSummary db sid of
                      None \<Rightarrow> (Failure 404 ''Summary not found'', db)
                    | Some existingSummary \<Rightarrow>
                        if ratingIsInt \<and> r \<noteq> real_of_int \<lfloor>r\<rfloor>
                        then (Failure 500 ''Failed to rate summary'', db)
                        else
                          (let db1 = db\<lparr>summaries :=
                                 map (\<lambda>s. if s_id s = sid then s\<lparr>s_rating := Some r\<rparr> else s)
                                   (summaries db)\<rparr>;
                               updatedSummary = existingSummary\<lparr>s_rating := Some r\<rparr>;
                               db2 =
                                 (case feedback of
                                    None \<Rightarrow> db1
                                  | Some f \<Rightarrow>
                                      if f \<noteq> [] \<and> trim f \<noteq> [] then
                                        db1\<lparr>comments := comments db1 @
                                          [\<lparr>c_content = utf16 ''Teacher Feedback: '' @ f,
                                            c_authorId = sess_id sess,
                                            c_summaryId = Some sid,
                                            c_createdAt = now\<rparr>]\<rparr>
                                      else db1);
                               bonusPoints = Math_round (fmul r 10)
                           in case incrementPoints (s_authorId existingSummary) bonusPoints db2 of
                                None \<Rightarrow> (Failure 500 ''Failed to rate summary'', db2)
                              | Some db3 \<Rightarrow> (Reply 200 updatedSummary, db3)))
             | _ \<Rightarrow> (Failure 400 ''Rating must be a number between 1 and 5'', db)))"

subsection \<open>Summary creation handler\<close>

record SummaryBody =
  sb_title :: "string option"
  sb_content :: "string option"
  sb_bookId :: "string option"
  sb_isPublic :: "bool option"

text \<open>\<open>newId\<close> is the id the store gives the new row.\<close>

definition POST_summaries ::
  "Session option \<Rightarrow> SummaryBody \<Rightarrow> string \<Rightarrow> Date \<Rightarrow> DB \<Rightarrow> Summary Response \<times> DB" where
  "POST_summaries session body newId now db =
     (case session of
        None \<Rightarrow> (Failure 401 ''Authentication required'', db)
      | Some sess \<Rightarrow>
          if sess_id sess = [] then (Failure 401 ''Authentication required'', db)
          else if \<not> truthyStr (sb_content body) \<or> \<not> truthyStr (sb_bookId body)
            then (Failure 400 ''Content and book ID are required'', db)
          else
            (case findBook db (the (sb_bookId body)) of
               None \<Rightarrow> (Failure 404 ''Book not found'', db)
             | Some book \<Rightarrow>
                 (let bookId = the (sb_bookId body);
                      summaryTitle =
                        orDefault (sb_title body)
                          (''Summary of '' @ [CHR 0x22] @ b_title book @ [CHR 0x22] @ '' by '' @ sess_name sess)
                  in case find (\<lambda>s. s_authorId s = sess_id sess \<and> s_bookId s = bookId) (summaries db) of
                       Some existingSummary \<Rightarrow>
                         (Failure 409 ''You have already submitted a summary for this book'', db)
                     | None \<Rightarrow>
                         (let summary =
                                \<lparr>s_id = newId, s_title = summaryTitle,
                                 s_content = the (sb_content body),
                                 s_authorId = sess_id sess, s_bookId = bookId,
                                 s_isPublic = (case sb_isPublic body of None \<Rightarrow> True | Some b \<Rightarrow> b),
                                 s_rating = None, s_createdAt = now\<rparr>;
                              db1 = db\<lparr>summaries := summaries db @ [summary]\<rparr>
                          in case incrementPoints (sess_id sess) 50 db1 of
                               None \<Rightarrow> (Failure 500 ''Failed to create summary'', db1)
                             | Some db2 \<Rightarrow> (Reply 201 summary, db2)))))"

section \<open>Sample data\<close>

text \<open>A small store and some requests, for the concrete instances of the theorems below.\<close>

definition ann :: User where
  "ann = \<lparr>u_id = ''u1'', u_name = Some ''Ann'', u_email = ''ann@example.org'', u_role = STUDENT,
          u_avatar = None, u_level = 1, u_points = 10\<rparr>"

definition bob :: User where
  "bob = \<lparr>u_id = ''u2'', u_name = None, u_email = ''bob@example.org'', u_role = STUDENT,
          u_avatar = None, u_level = 1, u_points = 30\<rparr>"

definition tom :: User where
  "tom = \<lparr>u_id = ''t1'', u_name = Some ''Tom'', u_email = ''tom@example.org'', u_role = TEACHER,
          u_avatar = None, u_level = 1, u_points = 0\<rparr>"

definition dune :: Book where
  "dune = \<lparr>b_id = ''b1'', b_title = ''Dune'', b_pages = Some 300\<rparr>"

definition emma :: Book where
  "emma = \<lparr>b_id = ''b2'', b_title = ''Emma'', b_pages = Some 400\<rparr>"

definition annSession :: Session where
  "annSession = \<lparr>sess_id = ''u1'', sess_name = ''Ann'', sess_role = STUDENT\<rparr>"

definition tomSession :: Session where
  "tomSession = \<lparr>sess_id = ''t1'', sess_name = ''Tom'', sess_role = TEACHER\<rparr>"

definition progressRow :: "string \<Rightarrow> string \<Rightarrow> ReadingStatus \<Rightarrow> Date \<Rightarrow> ReadingProgress" where
  "progressRow uid bid st t =
     \<lparr>p_userId = uid, p_bookId = bid, p_status = st, p_currentPage = 0, p_totalPages = 0,
      p_progressPercentage = 0, p_startedAt = None, p_completedAt = None, p_updatedAt = t\<rparr>"

definition summaryRow :: "string \<Rightarrow> string \<Rightarrow> real option \<Rightarrow> Summary" where
  "summaryRow sid uid r =
     \<lparr>s_id = sid, s_title = ''Notes'', s_content = ''A desert planet.'', s_authorId = uid,
      s_bookId = ''b1'', s_isPublic = True, s_rating = r, s_createdAt = 0\<rparr>"

definition sampleStore :: DB where
  "sampleStore = \<lparr>users = [ann, bob, tom], books = [dune], readingProgress = [],
                  summaries = [], comments = []\<rparr>"

definition progressBody :: "ReadingStatus \<Rightarrow> int \<Rightarrow> ProgressBody" where
  "progressBody st page =
     \<lparr>pb_bookId = Some ''b1'', pb_status = Some st, pb_currentPage = Some page, pb_totalPages = None\<rparr>"

definition pagesBody :: "int \<Rightarrow> int \<Rightarrow> ProgressBody" where
  "pagesBody page pages =
     \<lparr>pb_bookId = Some ''b1'', pb_status = Some READING, pb_currentPage = Some page,
      pb_totalPages = Some pages\<rparr>"

definition summaryStore :: DB where
  "summaryStore = sampleStore\<lparr>summaries := [summaryRow ''s1'' ''u1'' None]\<rparr>"

definition summaryBody :: SummaryBody where
  "summaryBody = \<lparr>sb_title = None, sb_content = Some ''Spice and sand.'', sb_bookId = Some ''b1'',
                  sb_isPublic = None\<rparr>"

definition completedStore :: DB where
  "completedStore = sampleStore\<lparr>readingProgress :=
     [progressRow ''u1'' ''b1'' COMPLETED 500]\<rparr>"

definition streakStore :: DB where
  "streakStore = sampleStore\<lparr>books := [dune, emma], readingProgress :=
     [progressRow ''u1'' ''b1'' READING (10 * 86400000 + 1800000),
      progressRow ''u1'' ''b2'' READING (10 * 86400000 + 1800000)]\<rparr>"

definition ratingStore :: DB where
  "ratingStore = sampleStore\<lparr>books := [dune, emma], summaries :=
     [summaryRow ''s1'' ''u1'' (Some 4), (summaryRow ''s2'' ''u1'' None)\<lparr>s_bookId := ''b2''\<rparr>]\<rparr>"

section \<open>Lemmas about binary64 rounding\<close>

lemma pow2_powr: "pow2 e = 2 powr real_of_int e"
proof (cases "0 \<le> e")
  case True
  then show ?thesis by (simp add: pow2_def powr_realpow[symmetric])
next
  case False
  then have "2 powr real_of_int e = 1 / 2 powr real_of_int (- e)"
    by (simp add: powr_minus_divide)
  also have "\<dots> = 1 / 2 ^ nat (- e)"
    using False by (simp add: powr_realpow[symmetric])
  finally show ?thesis using False by (simp add: pow2_def)
qed

lemma pow2_pos: "0 < pow2 e"
  by (simp add: pow2_powr)

lemma pow2_add: "pow2 (a + b) = pow2 a * pow2 b"
  by (simp add: pow2_powr powr_add)

lemma binade_le:
  assumes "0 < x"
  shows "pow2 (binade x) \<le> x"
proof (cases "1 \<le> x")
  case True
  then have pos: "0 < \<lfloor>x\<rfloor>" by linarith
  have nn: "0 \<le> bitlen \<lfloor>x\<rfloor> - 1"
    using pos by (simp add: bitlen_alt_def)
  have "(2::int) ^ nat (bitlen \<lfloor>x\<rfloor> - 1) \<le> \<lfloor>x\<rfloor>"
    using bitlen_bounds[OF pos] by simp
  then have "real_of_int (2 ^ nat (bitlen \<lfloor>x\<rfloor> - 1)) \<le> real_of_int \<lfloor>x\<rfloor>"
    by (simp only: of_int_le_iff)
  also have "\<dots> \<le> x" by simp
  finally show ?thesis using True nn by (simp add: binade_def pow2_def)
next
  case False
  define n where "n = \<lceil>1 / x\<rceil> - 1"
  have "1 < 1 / x" using False assms by simp
  then have npos: "0 < n" unfolding n_def by linarith
  have b1: "1 \<le> bitlen n" using npos by (simp add: bitlen_alt_def)
  have "n < 2 ^ nat (bitlen n)"
    using bitlen_bounds[OF npos] by simp
  then have "\<lceil>1 / x\<rceil> \<le> 2 ^ nat (bitlen n)"
    by (simp add: n_def)
  then have "1 / x \<le> real_of_int (2 ^ nat (bitlen n))"
    by (simp only: ceiling_le_iff)
  then have "1 / x \<le> 2 ^ nat (bitlen n)" by simp
  then have "1 \<le> 2 ^ nat (bitlen n) * x"
    using assms by (simp add: field_simps)
  then have "1 / 2 ^ nat (bitlen n) \<le> x"
    by (simp add: field_simps)
  moreover have "binade x = - bitlen n"
    using False by (simp add: binade_def n_def)
  ultimately show ?thesis using b1 by (simp add: pow2_def)
qed

lemma roundTiesToEven_near: "\<bar>real_of_int (roundTiesToEven y) - y\<bar> \<le> 1 / 2"
  unfolding roundTiesToEven_def Let_def by (auto; linarith)

lemma roundTiesToEven_nonneg: "0 \<le> y \<Longrightarrow> 0 \<le> roundTiesToEven y"
  unfolding roundTiesToEven_def Let_def by (auto; linarith)

lemma toDouble_nonneg:
  assumes "0 \<le> x"
  shows "0 \<le> toDouble x"
proof (cases "x = 0")
  case True
  then show ?thesis by (simp add: toDouble_def)
next
  case False
  have "0 \<le> x / pow2 (binade \<bar>x\<bar> - 52)"
    using assms pow2_pos[of "binade \<bar>x\<bar> - 52"] by simp
  then have "0 \<le> roundTiesToEven (x / pow2 (binade \<bar>x\<bar> - 52))"
    by (rule roundTiesToEven_nonneg)
  then show ?thesis
    using False pow2_pos[of "binade \<bar>x\<bar> - 52"] by (simp add: toDouble_def Let_def)
qed

lemma toDouble_error: "\<bar>toDouble x - x\<bar> \<le> \<bar>x\<bar> / 2 ^ 53"
proof (cases "x = 0")
  case True
  then show ?thesis by (simp add: toDouble_def)
next
  case False
  define s where "s = pow2 (binade \<bar>x\<bar> - 52)"
  have spos: "0 < s" by (simp add: s_def pow2_pos)
  have "pow2 (binade \<bar>x\<bar>) = s * 2 ^ 52"
    using pow2_add[of "binade \<bar>x\<bar> - 52" 52] by (simp add: s_def pow2_def)
  moreover have "pow2 (binade \<bar>x\<bar>) \<le> \<bar>x\<bar>"
    using False by (intro binade_le) simp
  ultimately have s52: "s * 2 ^ 52 \<le> \<bar>x\<bar>" by simp
  have td: "toDouble x = real_of_int (roundTiesToEven (x / s)) * s"
    using False by (simp add: toDouble_def Let_def s_def)
  have "toDouble x - x = (real_of_int (roundTiesToEven (x / s)) - x / s) * s"
    using spos by (simp add: td field_simps)
  then have "\<bar>toDouble x - x\<bar> = \<bar>real_of_int (roundTiesToEven (x / s)) - x / s\<bar> * s"
    using spos by (simp add: abs_mult)
  also have "\<dots> \<le> (1 / 2) * s"
    using roundTiesToEven_near[of "x / s"] spos by (intro mult_right_mono) simp_all
  also have "\<dots> \<le> \<bar>x\<bar> / 2 ^ 53"
    using s52 by simp
  finally show ?thesis .
qed


lemma roundTiesToEven_of_int: "roundTiesToEven (real_of_int m) = m"
  by (simp add: roundTiesToEven_def)

lemma toDouble_of_int:
  assumes "\<bar>n\<bar> < 2 ^ 53"
  shows "toDouble (real_of_int n) = real_of_int n"
proof (cases "n = 0")
  case True
  then show ?thesis by (simp add: toDouble_def)
next
  case False
  define a where "a = \<bar>n\<bar>"
  have apos: "0 < a" "1 \<le> real_of_int a" using False by (simp_all add: a_def)
  have abs_n: "\<bar>real_of_int n\<bar> = real_of_int a"
    by (simp add: a_def)
  have le: "bitlen a \<le> 53"
    using assms by (simp add: bitlen_le_iff_power a_def)
  have b: "binade \<bar>real_of_int n\<bar> = bitlen a - 1"
    unfolding abs_n using apos by (simp add: binade_def)
  define k where "k = nat (53 - bitlen a)"
  have k: "binade \<bar>real_of_int n\<bar> - 52 = - int k"
    using le by (simp add: b k_def)
  have p: "pow2 (- int k) = 1 / 2 ^ k"
    by (cases "k = 0") (simp_all add: pow2_def)
  have "real_of_int n / pow2 (- int k) = real_of_int (n * 2 ^ k)"
    by (simp add: p)
  then have "roundTiesToEven (real_of_int n / pow2 (- int k)) = n * 2 ^ k"
    by (simp only: roundTiesToEven_of_int)
  then show ?thesis
    using False by (simp add: toDouble_def Let_def k p)
qed

section \<open>Lemmas about the store\<close>

lemma find_map_update:
  assumes "\<And>x. P (g x) = P x"
  shows "find P (map (\<lambda>x. if Q x then g x else x) xs) =
         map_option (\<lambda>x. if Q x then g x else x) (find P xs)"
  using assms by (induction xs) auto

lemma find_append_case:
  "find P (xs @ ys) = (case find P xs of None \<Rightarrow> find P ys | Some x \<Rightarrow> Some x)"
  by (induction xs) auto

lemma find_Some_holds: "find P xs = Some x \<Longrightarrow> P x"
  by (induction xs) (auto split: if_splits)

lemma incrementPoints_users:
  "incrementPoints uid n db = Some db' \<Longrightarrow>
   users db' = map (\<lambda>x. if u_id x = uid then x\<lparr>u_points := u_points x + n\<rparr> else x) (users db)"
  by (cases "findUser db uid") (simp_all add: incrementPoints_def, fastforce)


lemma pointsOf_incrementPoints:
  assumes "incrementPoints uid n db = Some db'"
  shows "pointsOf db' u = (if u = uid then map_option (\<lambda>p. p + n) (pointsOf db u) else pointsOf db u)"
proof -
  have users': "users db' =
      map (\<lambda>x. if u_id x = uid then x\<lparr>u_points := u_points x + n\<rparr> else x) (users db)"
    using assms by (rule incrementPoints_users)
  have f: "find (\<lambda>x. u_id x = u) (users db') =
        map_option (\<lambda>x. if u_id x = uid then x\<lparr>u_points := u_points x + n\<rparr> else x)
          (find (\<lambda>x. u_id x = u) (users db))"
    unfolding users' by (rule find_map_update) simp
  show ?thesis
  proof (cases "find (\<lambda>x. u_id x = u) (users db)")
    case None
    with f show ?thesis by (auto simp: pointsOf_def findUser_def)
  next
    case (Some x)
    then have "u_id x = u" by (rule find_Some_holds)
    with f Some show ?thesis by (auto simp: pointsOf_def findUser_def)
  qed
qed

lemma incrementPoints_Some:
  "pointsOf db uid = Some pts \<Longrightarrow> \<exists>db'. incrementPoints uid n db = Some db'"
  by (cases "findUser db uid") (simp_all add: incrementPoints_def pointsOf_def)

lemma incrementPoints_None:
  "pointsOf db uid = None \<Longrightarrow> incrementPoints uid n db = None"
  by (cases "findUser db uid") (simp_all add: incrementPoints_def pointsOf_def)

lemma incrementPoints_frame:
  assumes "incrementPoints uid n db = Some db'"
  shows "readingProgress db' = readingProgress db \<and> summaries db' = summaries db \<and>
         comments db' = comments db \<and> books db' = books db"
proof (cases "findUser db uid")
  case None
  with assms show ?thesis by (simp add: incrementPoints_def)
next
  case (Some x)
  with assms have "db' = db\<lparr>users :=
            map (\<lambda>u. if u_id u = uid then u\<lparr>u_points := u_points u + n\<rparr> else u) (users db)\<rparr>"
    by (simp add: incrementPoints_def)
  then show ?thesis by simp
qed


lemma upsertProgress_users:
  "users (snd (upsertProgress uid bid st cp pg pct sa ca now db)) = users db"
  by (cases "findProgress db uid bid") (simp_all add: upsertProgress_def)

lemma pointsOf_upsertProgress:
  "pointsOf (snd (upsertProgress uid bid st cp pg pct sa ca now db)) u = pointsOf db u"
  by (simp add: pointsOf_def findUser_def upsertProgress_users)

lemma upsertProgress_pct:
  "p_progressPercentage (fst (upsertProgress uid bid st cp pg pct sa ca now db)) = pct"
  by (cases "findProgress db uid bid")
     (simp_all add: upsertProgress_def updateProgress_def createProgress_def)

lemma findProgress_upsertProgress:
  "findProgress (snd (upsertProgress uid bid st cp pg pct sa ca now db)) uid bid =
     Some (fst (upsertProgress uid bid st cp pg pct sa ca now db))"
proof (cases "findProgress db uid bid")
  case None
  then show ?thesis
    by (simp add: upsertProgress_def findProgress_def find_append_case createProgress_def)
next
  case (Some old)
  then have "find (\<lambda>p. p_userId p = uid \<and> p_bookId p = bid) (readingProgress db) = Some old"
    by (simp add: findProgress_def)
  then have key: "p_userId old = uid \<and> p_bookId old = bid"
    by (rule find_Some_holds)
  have "find (\<lambda>p. p_userId p = uid \<and> p_bookId p = bid)
          (map (\<lambda>p. if p_userId p = uid \<and> p_bookId p = bid
                     then updateProgress st cp pg pct sa ca now p else p) (readingProgress db)) =
        map_option (\<lambda>p. if p_userId p = uid \<and> p_bookId p = bid
                     then updateProgress st cp pg pct sa ca now p else p)
          (find (\<lambda>p. p_userId p = uid \<and> p_bookId p = bid) (readingProgress db))"
    by (rule find_map_update) (simp add: updateProgress_def)
  with Some key show ?thesis
    by (simp add: upsertProgress_def findProgress_def)
qed


lemma POST_progress_accepted:
  assumes "session = Some sess" "sess_id sess \<noteq> []" "pb_bookId body = Some bid" "bid \<noteq> []"
    and "findBook db bid = Some book"
  shows "POST_progress session body now db =
     (let pages = effectivePages (pb_totalPages body) (b_pages book);
          pct = progressPercentage (pb_currentPage body) pages;
          written = upsertProgress (sess_id sess) bid (pb_status body)
                      (orZero (pb_currentPage body)) pages pct
                      (startedAtOf (pb_status body) now) (completedAtOf (pb_status body) now) now db
      in if pb_status body = Some COMPLETED then
           (case incrementPoints (sess_id sess) 100 (snd written) of
              None \<Rightarrow> (Failure 500 ''Failed to update reading progress'', snd written)
            | Some db2 \<Rightarrow> (Reply 200 (fst written), db2))
         else if pb_status body = Some READING \<and> pct \<ge> 50 then
           (case incrementPoints (sess_id sess) 25 (snd written) of
              None \<Rightarrow> (Failure 500 ''Failed to update reading progress'', snd written)
            | Some db2 \<Rightarrow> (Reply 200 (fst written), db2))
         else (Reply 200 (fst written), snd written))"
  using assms by (simp add: POST_progress_def truthyStr_def Let_def)

lemma POST_progress_rejected:
  assumes "\<not> (\<exists>sess bid book. session = Some sess \<and> sess_id sess \<noteq> [] \<and> pb_bookId body = Some bid \<and>
              bid \<noteq> [] \<and> findBook db bid = Some book)"
  shows "snd (POST_progress session body now db) = db \<and>
         httpStatus (fst (POST_progress session body now db)) \<noteq> 200"
proof (cases session)
  case None
  then show ?thesis by (simp add: POST_progress_def)
next
  case (Some sess)
  show ?thesis
  proof (cases "sess_id sess = []")
    case True
    with Some show ?thesis by (simp add: POST_progress_def)
  next
    case False
    show ?thesis
    proof (cases "truthyStr (pb_bookId body)")
      case False
      with Some \<open>sess_id sess \<noteq> []\<close> show ?thesis by (simp add: POST_progress_def)
    next
      case True
      then obtain bid where bid: "pb_bookId body = Some bid" "bid \<noteq> []"
        by (cases "pb_bookId body") (auto simp: truthyStr_def)
      with assms Some False have "findBook db bid = None"
        by (cases "findBook db bid") auto
      with Some False True bid show ?thesis by (simp add: POST_progress_def)
    qed
  qed
qed

lemma effectivePages_cases:
  "effectivePages totalPages bookPgs =
     (case totalPages of
        Some t \<Rightarrow> if t \<noteq> 0 then t else (case bookPgs of Some p \<Rightarrow> p | None \<Rightarrow> 0)
      | None \<Rightarrow> (case bookPgs of Some p \<Rightarrow> p | None \<Rightarrow> 0))"
  by (simp add: effectivePages_def truthyNum_def orZero_def split: option.splits)

lemma progressPercentage_bounds:
  assumes "0 \<le> orZero currentPage"
  shows "0 \<le> progressPercentage currentPage pages \<and> progressPercentage currentPage pages \<le> 100"
proof (cases "pages > 0")
  case True
  then have "0 \<le> real_of_int (orZero currentPage) / real_of_int pages"
    using assms by simp
  then have "0 \<le> fdiv (real_of_int (orZero currentPage)) (real_of_int pages)"
    unfolding fdiv_def by (rule toDouble_nonneg)
  then have "0 \<le> fdiv (real_of_int (orZero currentPage)) (real_of_int pages) * 100"
    by simp
  then have "0 \<le> fmul (fdiv (real_of_int (orZero currentPage)) (real_of_int pages)) 100"
    unfolding fmul_def by (rule toDouble_nonneg)
  with True show ?thesis by (simp add: progressPercentage_def)
next
  case False
  then show ?thesis by (simp add: progressPercentage_def)
qed

lemma min_100_close: "\<bar>min p 100 - min 100 y\<bar> \<le> \<bar>p - (y::real)\<bar>"
  by (simp add: min_def abs_if split: if_splits)

lemma progressPercentage_error:
  assumes "0 \<le> orZero currentPage" "0 < pages"
  shows "\<bar>progressPercentage currentPage pages -
           min 100 (100 * real_of_int (orZero currentPage) / real_of_int pages)\<bar>
         \<le> (100 * real_of_int (orZero currentPage) / real_of_int pages) / 2 ^ 51"
proof -
  define x where "x = real_of_int (orZero currentPage) / real_of_int pages"
  define q where "q = toDouble x"
  define p where "p = toDouble (q * 100)"
  have x0: "0 \<le> x" using assms by (simp add: x_def)
  have q0: "0 \<le> q" unfolding q_def using x0 by (rule toDouble_nonneg)
  have eq: "\<bar>q - x\<bar> \<le> x / 2 ^ 53"
    using toDouble_error[of x] x0 by (simp add: q_def)
  moreover have "x / 2 ^ 53 \<le> x" using x0 by simp
  ultimately have q2: "q \<le> 2 * x" by linarith
  have ep: "\<bar>p - q * 100\<bar> \<le> q * 100 / 2 ^ 53"
    using toDouble_error[of "q * 100"] q0 by (simp add: p_def)
  have "\<bar>p - 100 * x\<bar> = \<bar>(p - q * 100) + 100 * (q - x)\<bar>"
    by (simp add: algebra_simps)
  also have "\<dots> \<le> \<bar>p - q * 100\<bar> + \<bar>100 * (q - x)\<bar>"
    by (rule abs_triangle_ineq)
  also have "\<dots> = \<bar>p - q * 100\<bar> + 100 * \<bar>q - x\<bar>"
    by (simp only: abs_mult abs_numeral)
  also have "\<dots> \<le> q * 100 / 2 ^ 53 + 100 * (x / 2 ^ 53)"
    using ep eq by (intro add_mono mult_left_mono) simp_all
  also have "\<dots> \<le> (2 * x) * 100 / 2 ^ 53 + 100 * (x / 2 ^ 53)"
    using q2 by (simp add: divide_right_mono)
  also have "\<dots> \<le> (100 * x) / 2 ^ 51"
    using x0 by simp
  finally have pe: "\<bar>p - 100 * x\<bar> \<le> (100 * x) / 2 ^ 51" .
  have "\<bar>min p 100 - min 100 (100 * x)\<bar> \<le> \<bar>p - 100 * x\<bar>"
    by (rule min_100_close)
  with pe have "\<bar>min p 100 - min 100 (100 * x)\<bar> \<le> (100 * x) / 2 ^ 51"
    by simp
  moreover have "progressPercentage currentPage pages = min p 100"
    using assms(2) by (simp add: progressPercentage_def p_def q_def x_def fmul_def fdiv_def)
  ultimately show ?thesis by (simp add: x_def)
qed

lemma POST_progress_readingProgress:
  assumes "session = Some sess" "sess_id sess \<noteq> []" "pb_bookId body = Some bid" "bid \<noteq> []"
    and "findBook db bid = Some book"
  shows "readingProgress (snd (POST_progress session body now db)) =
         readingProgress (snd (upsertProgress (sess_id sess) bid (pb_status body)
            (orZero (pb_currentPage body)) (effectivePages (pb_totalPages body) (b_pages book))
            (progressPercentage (pb_currentPage body) (effectivePages (pb_totalPages body) (b_pages book)))
            (startedAtOf (pb_status body) now) (completedAtOf (pb_status body) now) now db))"
    (is "_ = readingProgress (snd ?w)")
proof -
  have frame: "\<And>n. readingProgress (snd (case incrementPoints (sess_id sess) n (snd ?w) of
              None \<Rightarrow> (Failure 500 ''Failed to update reading progress'', snd ?w)
            | Some db2 \<Rightarrow> (Reply 200 (fst ?w), db2))) = readingProgress (snd ?w)"
  proof -
    fix n
    show "readingProgress (snd (case incrementPoints (sess_id sess) n (snd ?w) of
              None \<Rightarrow> (Failure 500 ''Failed to update reading progress'', snd ?w)
            | Some db2 \<Rightarrow> (Reply 200 (fst ?w), db2))) = readingProgress (snd ?w)"
    proof (cases "incrementPoints (sess_id sess) n (snd ?w)")
      case None
      then show ?thesis by simp
    next
      case (Some db2)
      with incrementPoints_frame[OF Some] show ?thesis by simp
    qed
  qed
  show ?thesis
    unfolding POST_progress_accepted[unfolded Let_def, OF assms]
    by (simp only: frame if_distrib[of snd] if_distrib[of readingProgress] snd_conv if_cancel)
qed

section \<open>Progress update handler: percentage and points\<close>

text \<open>
  Claim C1, amended. A progress update with a valid session and an existing book
  stores a row for (user, book). Let \<open>cp\<close> be the request's current page (0 when
  absent), not negative, and \<open>eff\<close> the effective page total (the request's
  \<open>totalPages\<close> when given and not 0, else the book's page count, else 0), both below
  \<open>2 ^ 53\<close>. When \<open>eff\<close> is positive, the stored percentage is the binary64 result of
  \<open>Math.min(cp / eff * 100, 100)\<close>, and it differs from \<open>min 100 (100 * cp / eff)\<close>
  by at most \<open>(100 * cp / eff) / 2 ^ 51\<close>. When \<open>eff\<close> is 0 it is 0. It always lies
  between 0 and 100.
\<close>

theorem POST_progress_percentage:
  fixes session body now db sess bid book
  defines "cp \<equiv> (case pb_currentPage body of None \<Rightarrow> 0 | Some c \<Rightarrow> c)"
  defines "eff \<equiv> (case pb_totalPages body of
                     Some t \<Rightarrow> if t \<noteq> 0 then t else (case b_pages book of Some p \<Rightarrow> p | None \<Rightarrow> 0)
                   | None \<Rightarrow> (case b_pages book of Some p \<Rightarrow> p | None \<Rightarrow> 0))"
  assumes "session = Some sess" "sess_id sess \<noteq> []" "pb_bookId body = Some bid" "bid \<noteq> []"
    and "findBook db bid = Some book"
    and "0 \<le> cp" "cp < 2 ^ 53" "eff < 2 ^ 53"
  shows "\<exists>row. findProgress (snd (POST_progress session body now db)) (sess_id sess) bid = Some row \<and>
           (0 < eff \<longrightarrow>
              p_progressPercentage row =
                min (fmul (fdiv (real_of_int cp) (real_of_int eff)) 100) 100 \<and>
              \<bar>p_progressPercentage row - min 100 (100 * real_of_int cp / real_of_int eff)\<bar>
                \<le> (100 * real_of_int cp / real_of_int eff) / 2 ^ 51) \<and>
           (eff = 0 \<longrightarrow> p_progressPercentage row = 0) \<and>
           0 \<le> p_progressPercentage row \<and> p_progressPercentage row \<le> 100"
proof -
  let ?w = "upsertProgress (sess_id sess) bid (pb_status body)
            (orZero (pb_currentPage body)) (effectivePages (pb_totalPages body) (b_pages book))
            (progressPercentage (pb_currentPage body) (effectivePages (pb_totalPages body) (b_pages book)))
            (startedAtOf (pb_status body) now) (completedAtOf (pb_status body) now) now db"
  have cp: "orZero (pb_currentPage body) = cp"
    by (simp add: cp_def orZero_def)
  have eff: "effectivePages (pb_totalPages body) (b_pages book) = eff"
    by (simp add: eff_def effectivePages_cases)
  have "readingProgress (snd (POST_progress session body now db)) = readingProgress (snd ?w)"
    using assms(3-7) by (rule POST_progress_readingProgress)
  then have found: "findProgress (snd (POST_progress session body now db)) (sess_id sess) bid = Some (fst ?w)"
    by (simp add: findProgress_def findProgress_upsertProgress[unfolded findProgress_def])
  have pct: "p_progressPercentage (fst ?w) = progressPercentage (pb_currentPage body) eff"
    by (simp add: upsertProgress_pct eff)
  have b: "0 \<le> progressPercentage (pb_currentPage body) eff \<and> progressPercentage (pb_currentPage body) eff \<le> 100"
    using \<open>0 \<le> cp\<close> cp by (intro progressPercentage_bounds) simp
  have pos: "0 < eff \<longrightarrow>
      progressPercentage (pb_currentPage body) eff =
        min (fmul (fdiv (real_of_int cp) (real_of_int eff)) 100) 100"
    by (simp add: progressPercentage_def cp)
  have err: "0 < eff \<longrightarrow>
      \<bar>progressPercentage (pb_currentPage body) eff - min 100 (100 * real_of_int cp / real_of_int eff)\<bar>
        \<le> (100 * real_of_int cp / real_of_int eff) / 2 ^ 51"
    using progressPercentage_error[of "pb_currentPage body" eff] \<open>0 \<le> cp\<close> cp by simp
  have zero: "eff = 0 \<longrightarrow> progressPercentage (pb_currentPage body) eff = 0"
    by (simp add: progressPercentage_def)
  from found pct b pos err zero show ?thesis by simp
qed

text \<open>The instance: page 150 of 300 is stored as 50.\<close>

theorem POST_progress_percentage_witness:
  "\<exists>row. findProgress (snd (POST_progress (Some annSession) (progressBody READING 150) 1000 sampleStore))
            ''u1'' ''b1'' = Some row \<and>
         p_progressPercentage row = 50"
  using POST_progress_percentage [where session = "Some annSession" and sess = annSession
      and body = "progressBody READING 150" and bid = "''b1''" and db = sampleStore
      and book = dune and now = 1000]
  by (auto simp add: annSession_def progressBody_def sampleStore_def dune_def findBook_def
      fmul_def fdiv_def toDouble_def binade_def compute_bitlen pow2_def roundTiesToEven_def)

text \<open>
  The claim as stated fails: for page 7 of 25 the quotient \<open>7 / 25\<close> is rounded to
  binary64 before it is multiplied by 100, and the stored percentage is
  \<open>7881299347898369 / 2 ^ 48\<close>, which prints as 28.000000000000004, not
  \<open>min 100 (100 * 7 / 25) = 28\<close>.
\<close>

theorem POST_progress_percentage_inexact:
  "\<exists>row. findProgress (snd (POST_progress (Some annSession) (pagesBody 7 25) 1000 sampleStore))
            ''u1'' ''b1'' = Some row \<and>
         p_progressPercentage row = 7881299347898369 / 2 ^ 48 \<and>
         p_progressPercentage row \<noteq> min 100 (100 * real_of_int 7 / real_of_int 25)"
  by (simp add: POST_progress_def annSession_def pagesBody_def sampleStore_def dune_def findBook_def
      truthyStr_def truthyNum_def orZero_def effectivePages_def progressPercentage_def
      upsertProgress_def createProgress_def findProgress_def startedAtOf_def completedAtOf_def
      fmul_def fdiv_def toDouble_def binade_def compute_bitlen pow2_def roundTiesToEven_def Let_def)

text \<open>
  Claim C7. A progress update with a valid session, an existing book and an existing
  user is answered 200, and the user's points grow by exactly 100 when the request's
  status is COMPLETED, whatever the stored row was, by exactly 25 when the status is
  READING and the stored percentage is at least 50, and by 0 otherwise. Whenever the
  points of any user differ after a progress update, the request was such an accepted
  COMPLETED or READING request of that user.
\<close>

theorem POST_progress_points:
  fixes session body now db
  defines "R \<equiv> POST_progress session body now db"
  shows
    "(\<forall>sess bid book pts.
        session = Some sess \<and> sess_id sess \<noteq> [] \<and> pb_bookId body = Some bid \<and> bid \<noteq> [] \<and>
        findBook db bid = Some book \<and> pointsOf db (sess_id sess) = Some pts \<longrightarrow>
        (\<exists>row. fst R = Reply 200 row \<and>
           pointsOf (snd R) (sess_id sess) =
             Some (pts + (if pb_status body = Some COMPLETED then 100
                          else if pb_status body = Some READING \<and> p_progressPercentage row \<ge> 50 then 25
                          else 0)))) \<and>
     (\<forall>u. pointsOf (snd R) u \<noteq> pointsOf db u \<longrightarrow>
        (\<exists>sess row. session = Some sess \<and> sess_id sess = u \<and> fst R = Reply 200 row \<and>
           (pb_status body = Some COMPLETED \<or>
            (pb_status body = Some READING \<and> p_progressPercentage row \<ge> 50))))"
proof (intro conjI allI impI)
  fix sess bid book pts
  assume a: "session = Some sess \<and> sess_id sess \<noteq> [] \<and> pb_bookId body = Some bid \<and> bid \<noteq> [] \<and>
        findBook db bid = Some book \<and> pointsOf db (sess_id sess) = Some pts"
  define pages where "pages = effectivePages (pb_totalPages body) (b_pages book)"
  define pct where "pct = progressPercentage (pb_currentPage body) pages"
  define written where "written = upsertProgress (sess_id sess) bid (pb_status body)
                      (orZero (pb_currentPage body)) pages pct
                      (startedAtOf (pb_status body) now) (completedAtOf (pb_status body) now) now db"
  have R: "R =
      (if pb_status body = Some COMPLETED then
           (case incrementPoints (sess_id sess) 100 (snd written) of
              None \<Rightarrow> (Failure 500 ''Failed to update reading progress'', snd written)
            | Some db2 \<Rightarrow> (Reply 200 (fst written), db2))
         else if pb_status body = Some READING \<and> pct \<ge> 50 then
           (case incrementPoints (sess_id sess) 25 (snd written) of
              None \<Rightarrow> (Failure 500 ''Failed to update reading progress'', snd written)
            | Some db2 \<Rightarrow> (Reply 200 (fst written), db2))
         else (Reply 200 (fst written), snd written))"
    unfolding R_def written_def pct_def pages_def
    using a by (intro POST_progress_accepted[unfolded Let_def]) simp_all
  have pts1: "pointsOf (snd written) (sess_id sess) = Some pts"
    using a by (simp add: written_def pointsOf_upsertProgress)
  have rowpct: "p_progressPercentage (fst written) = pct"
    by (simp add: written_def upsertProgress_pct)
  show "\<exists>row. fst R = Reply 200 row \<and>
           pointsOf (snd R) (sess_id sess) =
             Some (pts + (if pb_status body = Some COMPLETED then 100
                          else if pb_status body = Some READING \<and> p_progressPercentage row \<ge> 50 then 25
                          else 0))"
  proof (cases "pb_status body = Some COMPLETED")
    case True
    from pts1 obtain db2 where db2: "incrementPoints (sess_id sess) 100 (snd written) = Some db2"
      using incrementPoints_Some by blast
    from pointsOf_incrementPoints[OF db2, of "sess_id sess"] pts1
    have "pointsOf db2 (sess_id sess) = Some (pts + 100)" by simp
    with True db2 R show ?thesis by simp
  next
    case notC: False
    show ?thesis
    proof (cases "pb_status body = Some READING \<and> pct \<ge> 50")
      case True
      from pts1 obtain db2 where db2: "incrementPoints (sess_id sess) 25 (snd written) = Some db2"
        using incrementPoints_Some by blast
      from pointsOf_incrementPoints[OF db2, of "sess_id sess"] pts1
      have "pointsOf db2 (sess_id sess) = Some (pts + 25)" by simp
      with True notC db2 R rowpct show ?thesis by simp
    next
      case False
      with notC R rowpct pts1 show ?thesis by auto
    qed
  qed
next
  fix u
  assume ch: "pointsOf (snd R) u \<noteq> pointsOf db u"
  show "\<exists>sess row. session = Some sess \<and> sess_id sess = u \<and> fst R = Reply 200 row \<and>
           (pb_status body = Some COMPLETED \<or>
            (pb_status body = Some READING \<and> p_progressPercentage row \<ge> 50))"
  proof (cases "\<exists>sess bid book. session = Some sess \<and> sess_id sess \<noteq> [] \<and> pb_bookId body = Some bid \<and>
              bid \<noteq> [] \<and> findBook db bid = Some book")
    case False
    from POST_progress_rejected[OF False, of now] ch show ?thesis by (simp add: R_def)
  next
    case True
    then obtain sess bid book where a: "session = Some sess" "sess_id sess \<noteq> []"
        "pb_bookId body = Some bid" "bid \<noteq> []" "findBook db bid = Some book" by blast
    define pages where "pages = effectivePages (pb_totalPages body) (b_pages book)"
    define pct where "pct = progressPercentage (pb_currentPage body) pages"
    define written where "written = upsertProgress (sess_id sess) bid (pb_status body)
                      (orZero (pb_currentPage body)) pages pct
                      (startedAtOf (pb_status body) now) (completedAtOf (pb_status body) now) now db"
    have R: "R =
      (if pb_status body = Some COMPLETED then
           (case incrementPoints (sess_id sess) 100 (snd written) of
              None \<Rightarrow> (Failure 500 ''Failed to update reading progress'', snd written)
            | Some db2 \<Rightarrow> (Reply 200 (fst written), db2))
         else if pb_status body = Some READING \<and> pct \<ge> 50 then
           (case incrementPoints (sess_id sess) 25 (snd written) of
              None \<Rightarrow> (Failure 500 ''Failed to update reading progress'', snd written)
            | Some db2 \<Rightarrow> (Reply 200 (fst written), db2))
         else (Reply 200 (fst written), snd written))"
      unfolding R_def written_def pct_def pages_def
      by (rule POST_progress_accepted[unfolded Let_def, OF a])
    have pts1: "pointsOf (snd written) u = pointsOf db u"
      by (simp add: written_def pointsOf_upsertProgress)
    have rowpct: "p_progressPercentage (fst written) = pct"
      by (simp add: written_def upsertProgress_pct)
    show ?thesis
    proof (cases "pb_status body = Some COMPLETED")
      case True
      show ?thesis
      proof (cases "incrementPoints (sess_id sess) 100 (snd written)")
        case None
        with True R ch pts1 show ?thesis by simp
      next
        case (Some db2)
        from pointsOf_incrementPoints[OF Some, of u] pts1 ch True R Some
        have "u = sess_id sess" by (auto split: if_splits)
        with True R Some a show ?thesis by simp
      qed
    next
      case notC: False
      show ?thesis
      proof (cases "pb_status body = Some READING \<and> pct \<ge> 50")
        case True
        show ?thesis
        proof (cases "incrementPoints (sess_id sess) 25 (snd written)")
          case None
          with True notC R ch pts1 show ?thesis by simp
        next
          case (Some db2)
          from pointsOf_incrementPoints[OF Some, of u] pts1 ch True notC R Some
          have "u = sess_id sess" by (auto split: if_splits)
          with True notC R Some a rowpct show ?thesis by simp
        qed
      next
        case False
        with notC R ch pts1 show ?thesis by auto
      qed
    qed
  qed
qed

text \<open>
  The instance: Ann's row for the book is already COMPLETED, she completes the book
  again, and her points go from 10 to 110.
\<close>

theorem POST_progress_points_witness:
  "\<exists>row. fst (POST_progress (Some annSession) (progressBody COMPLETED 300) 1000 completedStore) =
            Reply 200 row \<and>
         pointsOf (snd (POST_progress (Some annSession) (progressBody COMPLETED 300) 1000 completedStore))
            ''u1'' = Some 110"
proof -
  have h: "Some annSession = Some annSession \<and> sess_id annSession \<noteq> [] \<and>
      pb_bookId (progressBody COMPLETED 300) = Some ''b1'' \<and> ''b1'' \<noteq> [] \<and>
      findBook completedStore ''b1'' = Some dune \<and>
      pointsOf completedStore (sess_id annSession) = Some 10"
    by (simp add: annSession_def progressBody_def completedStore_def sampleStore_def dune_def ann_def
        findBook_def pointsOf_def findUser_def)
  from POST_progress_points [where session = "Some annSession" and body = "progressBody COMPLETED 300"
      and db = completedStore and now = 1000, THEN conjunct1, rule_format, OF h]
  show ?thesis
    by (simp add: annSession_def progressBody_def)
qed

section \<open>Summary creation handler: points\<close>

lemma POST_summaries_accepted:
  assumes "session = Some sess" "sess_id sess \<noteq> []" "sb_content body = Some content" "content \<noteq> []"
    and "sb_bookId body = Some bid" "bid \<noteq> []" "findBook db bid = Some book"
    and "find (\<lambda>s. s_authorId s = sess_id sess \<and> s_bookId s = bid) (summaries db) = None"
  shows "POST_summaries session body newId now db =
     (let summary =
            \<lparr>s_id = newId,
             s_title = orDefault (sb_title body)
               (''Summary of '' @ [CHR 0x22] @ b_title book @ [CHR 0x22] @ '' by '' @ sess_name sess),
             s_content = content, s_authorId = sess_id sess, s_bookId = bid,
             s_isPublic = (case sb_isPublic body of None \<Rightarrow> True | Some b \<Rightarrow> b),
             s_rating = None, s_createdAt = now\<rparr>;
          db1 = db\<lparr>summaries := summaries db @ [summary]\<rparr>
      in case incrementPoints (sess_id sess) 50 db1 of
           None \<Rightarrow> (Failure 500 ''Failed to create summary'', db1)
         | Some db2 \<Rightarrow> (Reply 201 summary, db2))"
  using assms by (simp add: POST_summaries_def truthyStr_def Let_def)

lemma POST_summaries_created:
  assumes "httpStatus (fst (POST_summaries session body newId now db)) = 201"
  shows "\<exists>sess content bid book pts.
           session = Some sess \<and> sess_id sess \<noteq> [] \<and> sb_content body = Some content \<and> content \<noteq> [] \<and>
           sb_bookId body = Some bid \<and> bid \<noteq> [] \<and> findBook db bid = Some book \<and>
           find (\<lambda>s. s_authorId s = sess_id sess \<and> s_bookId s = bid) (summaries db) = None \<and>
           pointsOf db (sess_id sess) = Some pts"
proof (cases session)
  case None
  with assms show ?thesis by (simp add: POST_summaries_def)
next
  case (Some sess)
  show ?thesis
  proof (cases "sess_id sess = [] \<or> \<not> truthyStr (sb_content body) \<or> \<not> truthyStr (sb_bookId body)")
    case True
    then consider (a) "sess_id sess = []"
      | (b) "sess_id sess \<noteq> []" "\<not> truthyStr (sb_content body) \<or> \<not> truthyStr (sb_bookId body)"
      by blast
    then show ?thesis
    proof cases
      case a
      with assms Some show ?thesis by (simp add: POST_summaries_def)
    next
      case b
      with assms Some show ?thesis by (simp add: POST_summaries_def)
    qed
  next
    case False
    then obtain content bid where cb: "sb_content body = Some content" "content \<noteq> []"
        "sb_bookId body = Some bid" "bid \<noteq> []" and sid: "sess_id sess \<noteq> []"
      by (cases "sb_content body"; cases "sb_bookId body") (auto simp: truthyStr_def)
    show ?thesis
    proof (cases "findBook db bid")
      case None
      with assms Some cb sid show ?thesis by (simp add: POST_summaries_def truthyStr_def)
    next
      case book: (Some book)
      show ?thesis
      proof (cases "find (\<lambda>s. s_authorId s = sess_id sess \<and> s_bookId s = bid) (summaries db)")
        case ex: (Some existing)
        with assms Some cb sid book show ?thesis by (simp add: POST_summaries_def truthyStr_def)
      next
        case None
        show ?thesis
        proof (cases "pointsOf db (sess_id sess)")
          case noUser: None
          have "pointsOf (db\<lparr>summaries := summaries db @ [s]\<rparr>) (sess_id sess) = None" for s
            using noUser by (simp add: pointsOf_def findUser_def)
          then have "incrementPoints (sess_id sess) 50 (db\<lparr>summaries := summaries db @ [s]\<rparr>) = None" for s
            by (rule incrementPoints_None)
          with assms POST_summaries_accepted[OF Some sid cb book None, of newId now]
          show ?thesis by (simp add: Let_def)
        next
          case (Some pts)
          with \<open>session = Some sess\<close> sid cb book None show ?thesis by blast
        qed
      qed
    qed
  qed
qed

text \<open>
  Claim C10. Creating a summary with a valid session, non-empty content, an existing
  book, no earlier summary of that user for that book and an existing user is answered
  201, appends the summary and adds exactly 50 to the author's points. Every request
  answered 201 is of that kind: it adds exactly 50 to the points of the session's user.
\<close>

theorem POST_summaries_points:
  fixes session body newId now db
  defines "R \<equiv> POST_summaries session body newId now db"
  shows
    "(\<forall>sess content bid book pts.
        session = Some sess \<and> sess_id sess \<noteq> [] \<and> sb_content body = Some content \<and> content \<noteq> [] \<and>
        sb_bookId body = Some bid \<and> bid \<noteq> [] \<and> findBook db bid = Some book \<and>
        find (\<lambda>s. s_authorId s = sess_id sess \<and> s_bookId s = bid) (summaries db) = None \<and>
        pointsOf db (sess_id sess) = Some pts \<longrightarrow>
        (\<exists>summary. fst R = Reply 201 summary \<and> s_authorId summary = sess_id sess \<and>
           s_bookId summary = bid \<and> s_content summary = content \<and>
           summaries (snd R) = summaries db @ [summary] \<and>
           pointsOf (snd R) (sess_id sess) = Some (pts + 50))) \<and>
     (httpStatus (fst R) = 201 \<longrightarrow>
        (\<exists>sess pts. session = Some sess \<and> pointsOf db (sess_id sess) = Some pts \<and>
           pointsOf (snd R) (sess_id sess) = Some (pts + 50)))"
proof -
  have main: "\<exists>summary. fst R = Reply 201 summary \<and> s_authorId summary = sess_id sess \<and>
           s_bookId summary = bid \<and> s_content summary = content \<and>
           summaries (snd R) = summaries db @ [summary] \<and>
           pointsOf (snd R) (sess_id sess) = Some (pts + 50)"
    if a: "session = Some sess" "sess_id sess \<noteq> []" "sb_content body = Some content" "content \<noteq> []"
        "sb_bookId body = Some bid" "bid \<noteq> []" "findBook db bid = Some book"
        "find (\<lambda>s. s_authorId s = sess_id sess \<and> s_bookId s = bid) (summaries db) = None"
      and pts: "pointsOf db (sess_id sess) = Some pts"
    for sess content bid book pts
  proof -
    define summary where "summary =
            \<lparr>s_id = newId,
             s_title = orDefault (sb_title body)
               (''Summary of '' @ [CHR 0x22] @ b_title book @ [CHR 0x22] @ '' by '' @ sess_name sess),
             s_content = content, s_authorId = sess_id sess, s_bookId = bid,
             s_isPublic = (case sb_isPublic body of None \<Rightarrow> True | Some b \<Rightarrow> b),
             s_rating = None, s_createdAt = now\<rparr>"
    define db1 where "db1 = db\<lparr>summaries := summaries db @ [summary]\<rparr>"
    have R: "R = (case incrementPoints (sess_id sess) 50 db1 of
           None \<Rightarrow> (Failure 500 ''Failed to create summary'', db1)
         | Some db2 \<Rightarrow> (Reply 201 summary, db2))"
      unfolding R_def db1_def summary_def
      by (rule POST_summaries_accepted[unfolded Let_def, OF a])
    have pts1: "pointsOf db1 (sess_id sess) = Some pts"
      using pts by (simp add: db1_def pointsOf_def findUser_def)
    then obtain db2 where db2: "incrementPoints (sess_id sess) 50 db1 = Some db2"
      using incrementPoints_Some by blast
    have p2: "pointsOf db2 (sess_id sess) = Some (pts + 50)"
      using pointsOf_incrementPoints[OF db2, of "sess_id sess"] pts1 by simp
    have s2: "summaries db2 = summaries db @ [summary]"
      using incrementPoints_frame[OF db2] by (simp add: db1_def)
    have "fst R = Reply 201 summary \<and> snd R = db2"
      using R db2 by simp
    with p2 s2 show ?thesis
      by (intro exI[of _ summary]) (simp add: summary_def)
  qed
  have conv: "\<exists>sess pts. session = Some sess \<and> pointsOf db (sess_id sess) = Some pts \<and>
           pointsOf (snd R) (sess_id sess) = Some (pts + 50)"
    if ok: "httpStatus (fst R) = 201"
  proof -
    from POST_summaries_created[OF ok[unfolded R_def]]
    obtain sess content bid book pts where a: "session = Some sess" "sess_id sess \<noteq> []"
        "sb_content body = Some content" "content \<noteq> []"
        "sb_bookId body = Some bid" "bid \<noteq> []" "findBook db bid = Some book"
        "find (\<lambda>s. s_authorId s = sess_id sess \<and> s_bookId s = bid) (summaries db) = None"
      and pts: "pointsOf db (sess_id sess) = Some pts" by blast
    from main[OF a pts] a(1) pts show ?thesis by blast
  qed
  from main conv show ?thesis by blast
qed

theorem POST_summaries_points_witness:
  "\<exists>summary. fst (POST_summaries (Some annSession) summaryBody ''s9'' 1000 sampleStore) = Reply 201 summary \<and>
     pointsOf (snd (POST_summaries (Some annSession) summaryBody ''s9'' 1000 sampleStore)) ''u1'' = Some 60"
proof -
  have h: "Some annSession = Some annSession \<and> sess_id annSession \<noteq> [] \<and>
      sb_content summaryBody = Some ''Spice and sand.'' \<and> ''Spice and sand.'' \<noteq> [] \<and>
      sb_bookId summaryBody = Some ''b1'' \<and> ''b1'' \<noteq> [] \<and> findBook sampleStore ''b1'' = Some dune \<and>
      find (\<lambda>s. s_authorId s = sess_id annSession \<and> s_bookId s = ''b1'') (summaries sampleStore) = None \<and>
      pointsOf sampleStore (sess_id annSession) = Some 10"
    by (simp add: annSession_def summaryBody_def sampleStore_def dune_def ann_def
        findBook_def pointsOf_def findUser_def)
  from POST_summaries_points [where session = "Some annSession" and body = summaryBody
      and db = sampleStore and now = 1000 and newId = "''s9''", THEN conjunct1, rule_format, OF h]
  show ?thesis
    by (auto simp add: annSession_def)
qed

section \<open>Summary rating handler\<close>

lemma Math_round_of_int: "Math_round (real_of_int n) = n"
  unfolding Math_round_def by linarith

lemma trim_Nil: "trim [] = []"
  by (simp add: trim_def)

lemma PATCH_summary_authorised:
  assumes "session = Some sess" "sess_id sess \<noteq> []" "sess_role sess = TEACHER \<or> sess_role sess = ADMIN"
  shows "PATCH_summary ratingIsInt session sid rating feedback now db =
     (case rating of
        JNumber r \<Rightarrow>
          if r < 1 \<or> r > 5 then (Failure 400 ''Rating must be a number between 1 and 5'', db)
          else
            (case findSummary db sid of
               None \<Rightarrow> (Failure 404 ''Summary not found'', db)
             | Some existingSummary \<Rightarrow>
                 if ratingIsInt \<and> r \<noteq> real_of_int \<lfloor>r\<rfloor>
                 then (Failure 500 ''Failed to rate summary'', db)
                 else
                   (let db1 = db\<lparr>summaries :=
                          map (\<lambda>s. if s_id s = sid then s\<lparr>s_rating := Some r\<rparr> else s)
                            (summaries db)\<rparr>;
                        updatedSummary = existingSummary\<lparr>s_rating := Some r\<rparr>;
                        db2 =
                          (case feedback of
                             None \<Rightarrow> db1
                           | Some f \<Rightarrow>
                               if f \<noteq> [] \<and> trim f \<noteq> [] then
                                 db1\<lparr>comments := comments db1 @
                                   [\<lparr>c_content = utf16 ''Teacher Feedback: '' @ f,
                                     c_authorId = sess_id sess,
                                     c_summaryId = Some sid,
                                     c_createdAt = now\<rparr>]\<rparr>
                               else db1);
                        bonusPoints = Math_round (fmul r 10)
                    in case incrementPoints (s_authorId existingSummary) bonusPoints db2 of
                         None \<Rightarrow> (Failure 500 ''Failed to rate summary'', db2)
                       | Some db3 \<Rightarrow> (Reply 200 updatedSummary, db3)))
      | _ \<Rightarrow> (Failure 400 ''Rating must be a number between 1 and 5'', db))"
  using assms by (auto simp add: PATCH_summary_def)


lemma PATCH_summary_rated:
  assumes auth: "session = Some sess" "sess_id sess \<noteq> []"
      "sess_role sess = TEACHER \<or> sess_role sess = ADMIN"
    and r: "1 \<le> r" "r \<le> 5" "\<not> (ratingIsInt \<and> r \<noteq> real_of_int \<lfloor>r\<rfloor>)"
    and S: "findSummary db sid = Some S"
    and pts: "pointsOf db (s_authorId S) = Some pts"
  shows "\<exists>db'. PATCH_summary ratingIsInt session sid (JNumber r) feedback now db =
             (Reply 200 (S\<lparr>s_rating := Some r\<rparr>), db') \<and>
           findSummary db' sid = Some (S\<lparr>s_rating := Some r\<rparr>) \<and>
           comments db' =
             (case feedback of
                None \<Rightarrow> comments db
              | Some f \<Rightarrow>
                  if f \<noteq> [] \<and> trim f \<noteq> [] then
                    comments db @ [\<lparr>c_content = utf16 ''Teacher Feedback: '' @ f, c_authorId = sess_id sess,
                                    c_summaryId = Some sid, c_createdAt = now\<rparr>]
                  else comments db) \<and>
           pointsOf db' (s_authorId S) = Some (pts + Math_round (fmul r 10))"
proof -
  define db1 where "db1 = db\<lparr>summaries :=
      map (\<lambda>s. if s_id s = sid then s\<lparr>s_rating := Some r\<rparr> else s) (summaries db)\<rparr>"
  define db2 where "db2 =
      (case feedback of
         None \<Rightarrow> db1
       | Some f \<Rightarrow>
           if f \<noteq> [] \<and> trim f \<noteq> [] then
             db1\<lparr>comments := comments db1 @
               [\<lparr>c_content = utf16 ''Teacher Feedback: '' @ f, c_authorId = sess_id sess,
                 c_summaryId = Some sid, c_createdAt = now\<rparr>]\<rparr>
           else db1)"
  have users2: "users db2 = users db"
    by (simp add: db2_def db1_def split: option.splits)
  have summaries2: "summaries db2 = summaries db1"
    by (simp add: db2_def split: option.splits)
  have comments2: "comments db2 =
      (case feedback of
         None \<Rightarrow> comments db
       | Some f \<Rightarrow>
           if f \<noteq> [] \<and> trim f \<noteq> [] then
             comments db @ [\<lparr>c_content = utf16 ''Teacher Feedback: '' @ f, c_authorId = sess_id sess,
                             c_summaryId = Some sid, c_createdAt = now\<rparr>]
           else comments db)"
    by (simp add: db2_def db1_def split: option.splits)
  have "pointsOf db2 (s_authorId S) = Some pts"
    using pts users2 by (simp add: pointsOf_def findUser_def)
  then obtain db3 where db3: "incrementPoints (s_authorId S) (Math_round (fmul r 10)) db2 = Some db3"
      and pts2: "pointsOf db2 (s_authorId S) = Some pts"
    using incrementPoints_Some by blast
  have R: "PATCH_summary ratingIsInt session sid (JNumber r) feedback now db =
      (Reply 200 (S\<lparr>s_rating := Some r\<rparr>), db3)"
    using r S db3
    by (simp add: PATCH_summary_authorised[OF auth] Let_def db2_def[symmetric] db1_def[symmetric])
  have sidS: "s_id S = sid"
    using S unfolding findSummary_def by (rule find_Some_holds)
  have "find (\<lambda>s. s_id s = sid)
          (map (\<lambda>s. if s_id s = sid then s\<lparr>s_rating := Some r\<rparr> else s) (summaries db)) =
        map_option (\<lambda>s. if s_id s = sid then s\<lparr>s_rating := Some r\<rparr> else s)
          (find (\<lambda>s. s_id s = sid) (summaries db))"
    by (rule find_map_update) simp
  then have f1: "findSummary db1 sid = Some (S\<lparr>s_rating := Some r\<rparr>)"
    using S sidS by (simp add: findSummary_def db1_def)
  have f3: "findSummary db3 sid = Some (S\<lparr>s_rating := Some r\<rparr>)"
    using f1 incrementPoints_frame[OF db3] summaries2 by (simp add: findSummary_def)
  have c3: "comments db3 = comments db2"
    using incrementPoints_frame[OF db3] by simp
  have p3: "pointsOf db3 (s_authorId S) = Some (pts + Math_round (fmul r 10))"
    using pointsOf_incrementPoints[OF db3, of "s_authorId S"] pts2 by simp
  from R f3 c3 comments2 p3 show ?thesis by simp
qed

text \<open>
  Claim C9, amended. A rating call by a TEACHER or ADMIN with an integer rating \<open>r\<close>
  from 1 to 5 and a feedback text \<open>f\<close> that is not empty after \<open>trim\<close> (it holds a
  character that is neither white space nor a line terminator), on an existing summary
  \<open>S\<close> whose author exists, is answered 200; afterwards the rating of \<open>S\<close> is \<open>r\<close>,
  one comment with content \<open>Teacher Feedback: \<close> followed by \<open>f\<close> is appended for
  \<open>S\<close>, and the author's points have grown by exactly \<open>r * 10\<close>. Nothing is asked of
  the earlier rating of \<open>S\<close>, so this holds on every such call.
\<close>

theorem PATCH_summary_effect:
  assumes "session = Some sess" "sess_id sess \<noteq> []"
      "sess_role sess = TEACHER \<or> sess_role sess = ADMIN"
    and "1 \<le> r" "r \<le> 5"
    and "trim f \<noteq> []"
    and "findSummary db sid = Some S"
    and "pointsOf db (s_authorId S) = Some pts"
  shows "\<exists>db'. PATCH_summary ratingIsInt session sid (JNumber (real_of_int r)) (Some f) now db =
             (Reply 200 (S\<lparr>s_rating := Some (real_of_int r)\<rparr>), db') \<and>
           findSummary db' sid = Some (S\<lparr>s_rating := Some (real_of_int r)\<rparr>) \<and>
           comments db' =
             comments db @ [\<lparr>c_content = utf16 ''Teacher Feedback: '' @ f, c_authorId = sess_id sess,
                             c_summaryId = Some sid, c_createdAt = now\<rparr>] \<and>
           pointsOf db' (s_authorId S) = Some (pts + r * 10)"
proof -
  have f: "f \<noteq> []"
    using \<open>trim f \<noteq> []\<close> trim_Nil by auto
  have rr: "(1::real) \<le> real_of_int r" "real_of_int r \<le> 5"
      "\<not> (ratingIsInt \<and> real_of_int r \<noteq> real_of_int \<lfloor>real_of_int r\<rfloor>)"
    using \<open>1 \<le> r\<close> \<open>r \<le> 5\<close> by simp_all
  have "fmul (real_of_int r) 10 = toDouble (real_of_int (r * 10))"
    by (simp add: fmul_def)
  also have "\<dots> = real_of_int (r * 10)"
    using \<open>1 \<le> r\<close> \<open>r \<le> 5\<close> by (intro toDouble_of_int) simp
  finally have bonus: "Math_round (fmul (real_of_int r) 10) = r * 10"
    by (simp only: Math_round_of_int)
  from PATCH_summary_rated[OF assms(1-3) rr assms(7,8), of "Some f" now]
  show ?thesis
    using f \<open>trim f \<noteq> []\<close> bonus by simp
qed

theorem PATCH_summary_effect_witness:
  "\<exists>db'. PATCH_summary True (Some tomSession) ''s1'' (JNumber 3) (Some (utf16 ''Good analysis'')) 1000
           summaryStore =
           (Reply 200 (summaryRow ''s1'' ''u1'' (Some 3)), db') \<and>
         findSummary db' ''s1'' = Some (summaryRow ''s1'' ''u1'' (Some 3)) \<and>
         comments db' = [\<lparr>c_content = utf16 ''Teacher Feedback: Good analysis'', c_authorId = ''t1'',
                          c_summaryId = Some ''s1'', c_createdAt = 1000\<rparr>] \<and>
         pointsOf db' ''u1'' = Some 40"
  using PATCH_summary_effect [where session = "Some tomSession" and sess = tomSession and r = 3
      and f = "utf16 ''Good analysis''" and db = summaryStore and sid = "''s1''"
      and S = "summaryRow ''s1'' ''u1'' None" and pts = 10 and ratingIsInt = True and now = 1000]
  by (simp add: tomSession_def summaryStore_def sampleStore_def summaryRow_def ann_def
      findSummary_def pointsOf_def findUser_def trim_def isWhiteSpace_def utf16_def)

text \<open>
  The claim as stated fails for a feedback text that is not empty but all white space,
  here one space (code unit 0x20): the call succeeds and no comment is created.
\<close>

theorem PATCH_summary_blank_feedback:
  "[0x20] \<noteq> ([] :: jsString) \<and>
   httpStatus (fst (PATCH_summary True (Some tomSession) ''s1'' (JNumber 3) (Some [0x20]) 1000 summaryStore)) = 200 \<and>
   comments (snd (PATCH_summary True (Some tomSession) ''s1'' (JNumber 3) (Some [0x20]) 1000 summaryStore)) = []"
  by (simp add: PATCH_summary_def tomSession_def summaryStore_def sampleStore_def summaryRow_def
      ann_def bob_def tom_def findSummary_def incrementPoints_def findUser_def trim_def
      isWhiteSpace_def Math_round_def Let_def
      fmul_def toDouble_def binade_def compute_bitlen pow2_def roundTiesToEven_def)


text \<open>
  Claim C5, amended. For a caller with the TEACHER or ADMIN role, a rating that is not
  a number, or is a number below 1 or above 5, is answered 400 and the store is left
  as it was; every number from 1 to 5, integer or not, passes the validation (the
  answer is not 400); and the ratings 1 and 5 on an existing summary whose author
  exists are answered 200.
\<close>

theorem PATCH_summary_validation:
  assumes "session = Some sess" "sess_id sess \<noteq> []"
      "sess_role sess = TEACHER \<or> sess_role sess = ADMIN"
  shows "((\<forall>r. rating = JNumber r \<longrightarrow> r < 1 \<or> 5 < r) \<longrightarrow>
            PATCH_summary ratingIsInt session sid rating feedback now db =
              (Failure 400 ''Rating must be a number between 1 and 5'', db)) \<and>
         ((\<exists>r. rating = JNumber r \<and> 1 \<le> r \<and> r \<le> 5) \<longrightarrow>
            httpStatus (fst (PATCH_summary ratingIsInt session sid rating feedback now db)) \<noteq> 400) \<and>
         ((rating = JNumber 1 \<or> rating = JNumber 5) \<and>
          (\<exists>S pts. findSummary db sid = Some S \<and> pointsOf db (s_authorId S) = Some pts) \<longrightarrow>
            httpStatus (fst (PATCH_summary ratingIsInt session sid rating feedback now db)) = 200)"
proof (intro conjI impI)
  assume bad: "\<forall>r. rating = JNumber r \<longrightarrow> r < 1 \<or> 5 < r"
  show "PATCH_summary ratingIsInt session sid rating feedback now db =
          (Failure 400 ''Rating must be a number between 1 and 5'', db)"
  proof (cases rating)
    case (JNumber r)
    with bad have "r < 1 \<or> r > 5" by simp
    with JNumber show ?thesis by (simp add: PATCH_summary_authorised[OF assms])
  qed (simp_all add: PATCH_summary_authorised[OF assms])
next
  assume "\<exists>r. rating = JNumber r \<and> 1 \<le> r \<and> r \<le> 5"
  then obtain r where r: "rating = JNumber r" "1 \<le> r" "r \<le> 5" by blast
  show "httpStatus (fst (PATCH_summary ratingIsInt session sid rating feedback now db)) \<noteq> 400"
  proof (cases "findSummary db sid")
    case None
    with r show ?thesis by (simp add: PATCH_summary_authorised[OF assms])
  next
    case (Some S)
    show ?thesis
    proof (cases "ratingIsInt \<and> r \<noteq> real_of_int \<lfloor>r\<rfloor>")
      case True
      with r Some show ?thesis by (simp add: PATCH_summary_authorised[OF assms])
    next
      case False
      with r Some show ?thesis
        by (simp add: PATCH_summary_authorised[OF assms] Let_def split: option.splits)
    qed
  qed
next
  assume a: "(rating = JNumber 1 \<or> rating = JNumber 5) \<and>
          (\<exists>S pts. findSummary db sid = Some S \<and> pointsOf db (s_authorId S) = Some pts)"
  then obtain S pts where S: "findSummary db sid = Some S" "pointsOf db (s_authorId S) = Some pts"
    by blast
  from a obtain r where r: "rating = JNumber r" "1 \<le> r" "r \<le> 5"
      "\<not> (ratingIsInt \<and> r \<noteq> real_of_int \<lfloor>r\<rfloor>)"
    by auto
  from PATCH_summary_rated[OF assms r(2-4) S, of feedback now] r(1)
  show "httpStatus (fst (PATCH_summary ratingIsInt session sid rating feedback now db)) = 200"
    by auto
qed

theorem PATCH_summary_validation_witness:
  "PATCH_summary True (Some tomSession) ''s1'' (JNumber 6) None 1000 summaryStore =
     (Failure 400 ''Rating must be a number between 1 and 5'', summaryStore) \<and>
   httpStatus (fst (PATCH_summary True (Some tomSession) ''s1'' (JNumber 5) None 1000 summaryStore)) = 200"
proof -
  have auth: "Some tomSession = Some tomSession" "sess_id tomSession \<noteq> []"
      "sess_role tomSession = TEACHER \<or> sess_role tomSession = ADMIN"
    by (simp_all add: tomSession_def)
  have bad: "\<forall>r. JNumber 6 = JNumber r \<longrightarrow> r < 1 \<or> 5 < r"
    by simp
  have good: "(JNumber 5 = JNumber 1 \<or> JNumber 5 = JNumber (5::real)) \<and>
      (\<exists>S pts. findSummary summaryStore ''s1'' = Some S \<and> pointsOf summaryStore (s_authorId S) = Some pts)"
    by (simp add: summaryStore_def sampleStore_def summaryRow_def ann_def
        findSummary_def pointsOf_def findUser_def)
  from PATCH_summary_validation[OF auth, of "JNumber 6" True "''s1''" None 1000 summaryStore,
      THEN conjunct1, THEN mp, OF bad]
    PATCH_summary_validation[OF auth, of "JNumber 5" True "''s1''" None 1000 summaryStore,
      THEN conjunct2, THEN conjunct2, THEN mp, OF good]
  show ?thesis by simp
qed

text \<open>
  The claim as stated fails for a rating that is not an integer: 2.5 is not answered
  400. It is stored when the rating column takes any number, and refused by the store
  (answer 500) when the column takes integers only.
\<close>

theorem PATCH_summary_fraction_not_400:
  "httpStatus (fst (PATCH_summary False (Some tomSession) ''s1'' (JNumber (5 / 2)) None 1000 summaryStore)) = 200 \<and>
   findSummary (snd (PATCH_summary False (Some tomSession) ''s1'' (JNumber (5 / 2)) None 1000 summaryStore)) ''s1'' =
     Some (summaryRow ''s1'' ''u1'' (Some (5 / 2))) \<and>
   httpStatus (fst (PATCH_summary True (Some tomSession) ''s1'' (JNumber (5 / 2)) None 1000 summaryStore)) = 500"
  by (simp add: PATCH_summary_def tomSession_def summaryStore_def sampleStore_def summaryRow_def
      ann_def bob_def tom_def findSummary_def incrementPoints_def findUser_def
      Math_round_def Let_def
      fmul_def toDouble_def binade_def compute_bitlen pow2_def roundTiesToEven_def)

section \<open>Leaderboard ranker: order, ranks and streak\<close>

lemma sorted_map_uminus:
  "sorted (map (\<lambda>x. - f x) xs) = sorted_wrt (\<ge>) (map (f :: 'a \<Rightarrow> int) xs)"
  by (induction xs) auto

lemma stableByPointsDesc_orders: "ordersByPointsDesc stableByPointsDesc"
  unfolding ordersByPointsDesc_def stableByPointsDesc_def
  by (simp add: sorted_map_uminus[symmetric])

lemma takeRows_length: "int (length (takeRows n xs)) \<le> \<bar>n\<bar>"
proof (cases "0 \<le> n")
  case True
  then show ?thesis by (simp add: takeRows_def min_def le_nat_iff)
next
  case False
  then have "length xs - (length xs - nat (- n)) \<le> nat (- n)" by simp
  with False show ?thesis by (simp add: takeRows_def)
qed

lemma takeRows_length_nonneg: "0 \<le> n \<Longrightarrow> int (length (takeRows n xs)) \<le> n"
  by (simp add: takeRows_def min_def le_nat_iff)

lemma takeRows_map: "map f (takeRows n xs) = takeRows n (map f xs)"
  by (simp add: takeRows_def take_map drop_map)

lemma takeRows_sorted_wrt: "sorted_wrt P xs \<Longrightarrow> sorted_wrt P (takeRows n xs)"
  by (simp add: takeRows_def sorted_wrt_take sorted_wrt_drop)

text \<open>
  The completion rate of 23 completed books out of 40: the product is the binary64
  number just below 57.5, and \<open>Math.round\<close> gives 57.
\<close>

lemma completionRate_23_of_40: "Math_round (fmul (fdiv 23 40) 100) = 57"
  by (simp add: Math_round_def fmul_def fdiv_def toDouble_def binade_def compute_bitlen pow2_def
      roundTiesToEven_def)

lemma leaderboardEntry_rank: "e_rank (leaderboardEntry now ir) = fst ir + 1"
  by (simp add: leaderboardEntry_def Let_def)

lemma leaderboardEntry_points: "st_points (e_stats (leaderboardEntry now ir)) = u_points (ur_user (snd ir))"
  by (simp add: leaderboardEntry_def Let_def)

lemma leaderboardEntry_id: "eu_id (e_user (leaderboardEntry now ir)) = u_id (ur_user (snd ir))"
  by (simp add: leaderboardEntry_def Let_def)

lemma leaderboardEntry_streak:
  "st_readingStreak (e_stats (leaderboardEntry now ir)) = readingStreak (ur_readingProgress (snd ir)) now"
  by (simp add: leaderboardEntry_def Let_def)

lemma findManyUsers_users:
  "map ur_user (findManyUsers orderBy type f limit db) =
   takeRows limit (orderBy (filter (userRoleFilter type) (users db)))"
  by (simp add: findManyUsers_def comp_def)

lemma map_rank_enumerate:
  "map e_rank (map (leaderboardEntry now) (enumerate 0 rows)) = [1..<length rows + 1]"
proof -
  have "map e_rank (map (leaderboardEntry now) (enumerate 0 rows)) =
        map (\<lambda>ir. Suc (fst ir)) (enumerate 0 rows)"
    by (simp add: leaderboardEntry_rank)
  also have "\<dots> = map Suc (map fst (enumerate 0 rows))"
    by (simp only: map_map comp_def)
  also have "\<dots> = map Suc [0..<length rows]"
    unfolding map_fst_enumerate by simp
  also have "\<dots> = [Suc 0..<Suc (length rows)]"
    by (rule map_Suc_upt)
  finally show ?thesis by (simp del: upt_Suc)
qed

lemma map_snd_enumerate_comp:
  "map (\<lambda>ir. g (snd ir)) (enumerate n xs) = map g xs"
proof -
  have "map (\<lambda>ir. g (snd ir)) (enumerate n xs) = map g (map snd (enumerate n xs))"
    by (simp only: map_map comp_def)
  also have "\<dots> = map g xs"
    unfolding map_snd_enumerate by simp
  finally show ?thesis .
qed

text \<open>
  Claim C8, amended. Let the store order the users by points, highest first, in any
  order among equal points. For a limit that is not a number the answer is 500. For
  every integer limit \<open>n\<close> the answer is 200 and, in its leaderboard: the ranks are
  1, 2, ..., N in this order; the entries are, one for one and in the same order, the
  rows that the users query returned (so users with equal points keep the order the
  query gave them and get distinct ranks); the points never increase along the list;
  and there are at most \<open>\<bar>n\<bar>\<close> entries, at most \<open>n\<close> when \<open>n\<close> is not negative.
\<close>

theorem GET_leaderboard_ranking:
  assumes "ordersByPointsDesc orderBy"
  shows "GET_leaderboard orderBy typeParam periodParam None now db =
           Failure 500 ''Failed to fetch leaderboard'' \<and>
         (\<exists>L. GET_leaderboard orderBy typeParam periodParam (Some n) now db = Reply 200 L \<and>
              map e_rank L = [1..<length L + 1] \<and>
              map (\<lambda>e. (eu_id (e_user e), st_points (e_stats e))) L =
                map (\<lambda>u. (u_id u, u_points u))
                  (takeRows n (orderBy (filter (userRoleFilter (orDefault typeParam ''students''))
                     (users db)))) \<and>
              sorted_wrt (\<ge>) (map (\<lambda>e. st_points (e_stats e)) L) \<and>
              int (length L) \<le> \<bar>n\<bar> \<and>
              (0 \<le> n \<longrightarrow> int (length L) \<le> n))"
proof -
  define C where "C = filter (userRoleFilter (orDefault typeParam ''students'')) (users db)"
  define rows where
    "rows = findManyUsers orderBy (orDefault typeParam ''students'')
       (dateFilter (orDefault periodParam ''all'') now) n db"
  define L where "L = map (leaderboardEntry now) (enumerate 0 rows)"
  have R: "GET_leaderboard orderBy typeParam periodParam (Some n) now db = Reply 200 L"
    by (simp add: GET_leaderboard_def Let_def rows_def L_def)
  have users: "map ur_user rows = takeRows n (orderBy C)"
    by (simp add: rows_def C_def findManyUsers_users)
  have len: "length L = length rows"
    by (simp add: L_def)
  have lenrows: "length rows = length (takeRows n (orderBy C))"
    using users by (metis length_map)
  have "map e_rank L = [1..<length rows + 1]"
    unfolding L_def by (rule map_rank_enumerate)
  then have rank: "map e_rank L = [1..<length L + 1]"
    by (simp only: len)
  have "map (\<lambda>e. (eu_id (e_user e), st_points (e_stats e))) L =
        map (\<lambda>r. (u_id (ur_user r), u_points (ur_user r))) rows"
    using map_snd_enumerate_comp[of "\<lambda>r. (u_id (ur_user r), u_points (ur_user r))" 0 rows]
    by (simp add: L_def leaderboardEntry_id leaderboardEntry_points comp_def)
  also have "\<dots> = map (\<lambda>u. (u_id u, u_points u)) (map ur_user rows)"
    by simp
  finally have same: "map (\<lambda>e. (eu_id (e_user e), st_points (e_stats e))) L =
      map (\<lambda>u. (u_id u, u_points u)) (takeRows n (orderBy C))"
    by (simp only: users)
  have "map (\<lambda>e. st_points (e_stats e)) L = map (\<lambda>r. u_points (ur_user r)) rows"
    using map_snd_enumerate_comp[of "\<lambda>r. u_points (ur_user r)" 0 rows]
    by (simp add: L_def leaderboardEntry_points comp_def)
  also have "\<dots> = map u_points (map ur_user rows)"
    by simp
  finally have pts: "map (\<lambda>e. st_points (e_stats e)) L = takeRows n (map u_points (orderBy C))"
    by (simp only: users takeRows_map)
  have "sorted_wrt (\<ge>) (map u_points (orderBy C))"
    using assms by (simp add: ordersByPointsDesc_def)
  then have "sorted_wrt (\<ge>) (takeRows n (map u_points (orderBy C)))"
    by (rule takeRows_sorted_wrt)
  then have sortedL: "sorted_wrt (\<ge>) (map (\<lambda>e. st_points (e_stats e)) L)"
    by (simp only: pts)
  have bound: "int (length L) \<le> \<bar>n\<bar>"
    unfolding len lenrows by (rule takeRows_length)
  have bound0: "0 \<le> n \<longrightarrow> int (length L) \<le> n"
    unfolding len lenrows by (simp add: takeRows_length_nonneg)
  have nan: "GET_leaderboard orderBy typeParam periodParam None now db =
      Failure 500 ''Failed to fetch leaderboard''"
    by (simp add: GET_leaderboard_def)
  from nan R rank same sortedL bound bound0 show ?thesis
    unfolding C_def by blast
qed

text \<open>
  The instance: with limit 1 the leaderboard of the sample store holds Bob alone, who
  has the most points.
\<close>

theorem GET_leaderboard_ranking_witness:
  "\<exists>L. GET_leaderboard stableByPointsDesc None None (Some 1) 1000 sampleStore = Reply 200 L \<and>
       map e_rank L = [1..<length L + 1] \<and>
       map (\<lambda>e. (eu_id (e_user e), st_points (e_stats e))) L = [(''u2'', 30)] \<and>
       int (length L) \<le> 1"
proof -
  from GET_leaderboard_ranking[OF stableByPointsDesc_orders, of None None 1000 sampleStore 1]
  obtain L where L: "GET_leaderboard stableByPointsDesc None None (Some 1) 1000 sampleStore = Reply 200 L"
      "map e_rank L = [1..<length L + 1]"
      "map (\<lambda>e. (eu_id (e_user e), st_points (e_stats e))) L =
         map (\<lambda>u. (u_id u, u_points u))
           (takeRows 1 (stableByPointsDesc (filter (userRoleFilter (orDefault None ''students''))
              (users sampleStore))))"
      "0 \<le> (1::int) \<longrightarrow> int (length L) \<le> 1"
    by blast
  have "map (\<lambda>u. (u_id u, u_points u))
           (takeRows 1 (stableByPointsDesc (filter (userRoleFilter (orDefault None ''students''))
              (users sampleStore)))) = [(''u2'', 30)]"
    by (simp add: takeRows_def stableByPointsDesc_def userRoleFilter_def orDefault_def
        sampleStore_def ann_def bob_def tom_def)
  with L show ?thesis by simp
qed

text \<open>
  The claim as stated fails for a negative limit: the handler passes it to the store
  unchecked, the store takes that many rows from the end, and with limit -1 the
  leaderboard has one entry, which is more than the limit.
\<close>

theorem GET_leaderboard_negative_limit:
  "\<exists>L. GET_leaderboard stableByPointsDesc None None (Some (- 1)) 1000 sampleStore = Reply 200 L \<and>
       map (\<lambda>e. (e_rank e, eu_id (e_user e), st_points (e_stats e))) L = [(1, ''u1'', 10)] \<and>
       \<not> int (length L) \<le> - 1"
  by (simp add: GET_leaderboard_def findManyUsers_def takeRows_def stableByPointsDesc_def
      orDefault_def userRoleFilter_def sampleStore_def ann_def bob_def tom_def Let_def
      enumerate_eq_zip leaderboardEntry_def)

lemma sort_key_Cons_least:
  assumes "sort_key k xs = y # ys" "z \<in> set xs"
  shows "k y \<le> k z"
proof -
  have "sorted (map k (y # ys))"
    using sorted_sort_key[of k xs] assms(1) by simp
  moreover have "z \<in> set (y # ys)"
    using assms set_sort[of k xs] by simp
  ultimately show ?thesis by auto
qed

lemma readingStreak_eq:
  "readingStreak rows today =
     (if rows = [] then 0
      else if (today - Max ((\<lambda>r. p_updatedAt (fst r)) ` set rows)) div msPerDay \<le> 1
           then min (length rows) 30 else 0)"
proof (cases "sort_key (\<lambda>r. - p_updatedAt (fst r)) rows")
  case Nil
  then have "length rows = 0"
    by (metis length_sort list.size(3))
  with Nil show ?thesis by (simp add: readingStreak_def)
next
  case (Cons first rest)
  then have ne: "rows \<noteq> []" by auto
  have mem: "first \<in> set rows"
    using Cons set_sort[of "\<lambda>r. - p_updatedAt (fst r)" rows] by auto
  have "p_updatedAt (fst z) \<le> p_updatedAt (fst first)" if "z \<in> set rows" for z
    using sort_key_Cons_least[OF Cons that] by simp
  then have mx: "Max ((\<lambda>r. p_updatedAt (fst r)) ` set rows) = p_updatedAt (fst first)"
    using mem by (intro Max_eqI) auto
  have len: "length (first # rest) = length rows"
    using Cons length_sort[of "\<lambda>r. - p_updatedAt (fst r)" rows] by simp
  show ?thesis
    using ne unfolding readingStreak_def Let_def Cons mx len[symmetric] msPerDay_def
    by simp
qed

text \<open>
  Claim C3: the code at the failing input. Ann has two progress rows, for two books,
  both updated today at 00:30, and now is 01:00. The streak of section 4.1 over these
  rows is 1 (one day with activity), and so is \<open>calculateReadingStreak\<close>; the
  leaderboard reports 2, the number of her rows (\<open>readingStreak_eq\<close> above shows this
  for every list of rows).
\<close>

theorem GET_leaderboard_streak_differs:
  "(\<exists>L. GET_leaderboard stableByPointsDesc None None (Some 10) (10 * 86400000 + 3600000) streakStore =
          Reply 200 L \<and>
        map (\<lambda>e. (eu_id (e_user e), st_readingStreak (e_stats e))) L = [(''u2'', 0), (''u1'', 2)]) \<and>
   min (calculateReadingStreak
          (map p_updatedAt (userProgress streakStore (dateFilter ''all'' (10 * 86400000 + 3600000)) ''u1''))
          (10 * 86400000 + 3600000)) 30 = 1"
  by (simp add: GET_leaderboard_def findManyUsers_def takeRows_def stableByPointsDesc_def orDefault_def
      userRoleFilter_def streakStore_def sampleStore_def ann_def bob_def tom_def Let_def
      enumerate_eq_zip leaderboardEntry_def readingStreak_def userProgress_def dateFilter_def
      passesDateFilter_def progressRow_def calculateReadingStreak_def setHours0_def msPerDay_def)

section \<open>Where the code departs from its stated purpose\<close>

lemma streakLoop_head_differs:
  "dates = [] \<or> hd dates \<noteq> currentDate \<Longrightarrow> streakLoop dates currentDate streak = streak"
  by (cases dates) auto

lemma calculateReadingStreak_inactive_today:
  assumes "setHours0 now \<notin> setHours0 ` set activities"
  shows "calculateReadingStreak activities now = 0"
proof (cases "activities = []")
  case True
  then show ?thesis by (simp add: calculateReadingStreak_def)
next
  case False
  let ?u = "rev (sort (remdups (map setHours0 activities)))"
  have "set ?u = setHours0 ` set activities" by simp
  with assms have "setHours0 now \<notin> set ?u" by simp
  then have "?u = [] \<or> hd ?u \<noteq> setHours0 now"
    by (metis hd_in_set)
  then have "streakLoop ?u (setHours0 now) 0 = 0"
    by (rule streakLoop_head_differs)
  with False show ?thesis by (simp add: calculateReadingStreak_def Let_def)
qed

text \<open>
  Claim C2: the code at the failing input. Now is day 10 at 01:00 and the only
  activity was on day 9 at 02:00, that is yesterday. The claim gives the streak 1;
  the loop compares the first activity day with today twice, never with yesterday,
  and returns 0.
\<close>

theorem calculateReadingStreak_yesterday_only:
  "calculateReadingStreak [9 * 86400000 + 7200000] (10 * 86400000 + 3600000) = 0"
  by (simp add: calculateReadingStreak_def setHours0_def msPerDay_def)

lemma averageSummaryRating_rated_unrated:
  "averageSummaryRating
     [summaryRow ''s1'' ''u1'' (Some 4), (summaryRow ''s2'' ''u1'' None)\<lparr>s_bookId := ''b2''\<rparr>] = 2"
  by (simp add: summaryRow_def averageSummaryRating_def ratingNumber_def
      fadd_def fmul_def fdiv_def toDouble_def binade_def compute_bitlen pow2_def roundTiesToEven_def)

lemma averageSummaryRating_none: "averageSummaryRating [] = 0"
  by (simp add: averageSummaryRating_def)

lemma round_average_2: "fdiv (real_of_int (Math_round (fmul 2 10))) 10 = 2"
  by (simp add: Math_round_def
      fadd_def fmul_def fdiv_def toDouble_def binade_def compute_bitlen pow2_def roundTiesToEven_def)

lemma round_average_0: "fdiv (real_of_int (Math_round (fmul 0 10))) 10 = 0"
  by (simp add: Math_round_def fmul_def fdiv_def toDouble_def)

lemma summaryRow_sel:
  "s_authorId (summaryRow sid uid r) = uid" "s_createdAt (summaryRow sid uid r) = 0"
  "s_rating (summaryRow sid uid r) = r"
  by (simp_all add: summaryRow_def)

text \<open>
  Claim C4: the code at the failing input. Ann has two summaries, one rated 4 and one
  not rated. The mean over her rated summaries is 4; the leaderboard divides the sum 4
  by the number of all her summaries and reports 2.
\<close>

theorem GET_leaderboard_average_counts_unrated:
  "\<exists>L. GET_leaderboard stableByPointsDesc None None (Some 10) 1000 ratingStore = Reply 200 L \<and>
       map (\<lambda>e. (eu_id (e_user e), st_averageSummaryRating (e_stats e))) L =
         [(''u2'', 0), (''u1'', 2)]"
  by (simp add: GET_leaderboard_def findManyUsers_def takeRows_def stableByPointsDesc_def orDefault_def
      userRoleFilter_def ratingStore_def sampleStore_def ann_def bob_def tom_def Let_def
      enumerate_eq_zip leaderboardEntry_def userSummaries_def userProgress_def dateFilter_def
      passesDateFilter_def summaryRow_sel averageSummaryRating_rated_unrated averageSummaryRating_none
      round_average_2 round_average_0)

lemma processMonthlyStats_shape:
  "length (processMonthlyStats stats now) = 6 \<and>
   list_all (\<lambda>b. mb_total b = mb_completed b + mb_started b) (processMonthlyStats stats now) \<and>
   list_all (\<lambda>b. mb_total b = 0) (processMonthlyStats [] now)"
  by (simp add: processMonthlyStats_def monthBucket_def Let_def)

text \<open>
  Claim C6: the code at the failing input. Now is 31 January 2024, 12:00, and the one
  entry is COMPLETED on 31 January 2024 at 10:00. The claim counts it in the bucket of
  January 2024; the code ends the month at 31 January 00:00, so the entry falls in no
  bucket and all six completed counts are 0.
\<close>

theorem processMonthlyStats_last_day_dropped:
  "map (\<lambda>b. (mb_year b, mb_month b, mb_completed b, mb_started b, mb_total b))
     (processMonthlyStats
        [(\<lparr>ld_year = 2024, ld_month = 0, ld_day = 31, ld_ms = 36000000\<rparr>, COMPLETED)]
        \<lparr>ld_year = 2024, ld_month = 0, ld_day = 31, ld_ms = 43200000\<rparr>) =
   [(2023, 7, 0, 0, 0), (2023, 8, 0, 0, 0), (2023, 9, 0, 0, 0), (2023, 10, 0, 0, 0),
    (2023, 11, 0, 0, 0), (2024, 0, 0, 0, 0)]"
  by (simp add: processMonthlyStats_def monthBucket_def newDate_def date_le_def daysInMonth_def
      isLeapYear_def Let_def)

end
